theory Spec2Isabelle
  imports Main "HOL-Library.Char_ord" "HOL-Library.List_Lexorder" "HOL-Library.Product_Lexorder"
begin

section \<open>Calendar dates (Python's \<open>datetime.date\<close>)\<close>

text \<open>
  A \<open>date\<close> is represented by its proleptic Gregorian ordinal, the value of
  \<open>date.toordinal()\<close>: day 1 is 0001-01-01 and \<open>date.max\<close> (9999-12-31) is day 3652059.
  Python compares dates by (year, month, day), which is the order of the ordinals;
  \<open>d + timedelta(days=n)\<close> is \<open>fromordinal(d.toordinal() + n)\<close>; and
  \<open>d.weekday()\<close> is \<open>(d.toordinal() + 6) % 7\<close> with Monday 0 and Sunday 6.
  The conversions between ordinals and (year, month, day) follow \<open>_ymd2ord\<close> and
  \<open>_ord2ymd\<close> of the standard library. Python raises \<open>OverflowError\<close> for a sum beyond
  \<open>date.max\<close>; no Sunday is that close to it (9999-12-31 is a Friday) and the clock of
  a session is far from it, so the sum is plain addition here.
\<close>

type_synonym date = int

definition DAYS_IN_MONTH :: "int list" where
  "DAYS_IN_MONTH = [-1, 31, 28, 31, 30, 31, 30, 31, 31, 30, 31, 30, 31]"

definition DAYS_BEFORE_MONTH :: "int list" where
  "DAYS_BEFORE_MONTH = [-1, 0, 31, 59, 90, 120, 151, 181, 212, 243, 273, 304, 334]"

definition is_leap :: "int \<Rightarrow> bool" where
  "is_leap year \<longleftrightarrow> year mod 4 = 0 \<and> (year mod 100 \<noteq> 0 \<or> year mod 400 = 0)"

definition days_before_year :: "int \<Rightarrow> int" where
  "days_before_year year = (let y = year - 1 in y * 365 + y div 4 - y div 100 + y div 400)"

definition days_before_month :: "int \<Rightarrow> int \<Rightarrow> int" where
  "days_before_month year month =
     DAYS_BEFORE_MONTH ! nat month + (if month > 2 \<and> is_leap year then 1 else 0)"

definition ymd2ord :: "int \<Rightarrow> int \<Rightarrow> int \<Rightarrow> date" where
  "ymd2ord year month day = days_before_year year + days_before_month year month + day"

definition ord2ymd :: "date \<Rightarrow> int \<times> int \<times> int" where
  "ord2ymd ordinal =
     (let n = ordinal - 1;
          n400 = n div 146097; n = n mod 146097;
          year = n400 * 400 + 1;
          n100 = n div 36524; n = n mod 36524;
          n4 = n div 1461; n = n mod 1461;
          n1 = n div 365; n = n mod 365;
          year = year + n100 * 100 + n4 * 4 + n1
      in if n1 = 4 \<or> n100 = 4 then (year - 1, 12, 31)
         else
           let leapyear = (n1 = 3 \<and> (n4 \<noteq> 24 \<or> n100 = 3));
               month = (n + 50) div 32;
               preceding = DAYS_BEFORE_MONTH ! nat month + (if month > 2 \<and> leapyear then 1 else 0)
           in if preceding > n
              then let month = month - 1;
                       preceding = preceding -
                         (DAYS_IN_MONTH ! nat month + (if month = 2 \<and> leapyear then 1 else 0))
                   in (year, month, n - preceding + 1)
              else (year, month, n - preceding + 1))"


definition weekday :: "date \<Rightarrow> int" where
  "weekday d = (d + 6) mod 7"

definition timedelta_add :: "date \<Rightarrow> int \<Rightarrow> date" where
  "timedelta_add d days = d + days"

section \<open>Text\<close>

text \<open>
  Strings are byte lists. \<open>digits\<close> is the decimal numeral of a natural number,
  \<open>zfill\<close> pads on the left with \<open>0\<close>, as the format specifications \<open>06d\<close>,
  \<open>%m\<close>, \<open>%d\<close> and \<open>%Y\<close> do. \<open>%Y\<close> is modelled with four digits, which is what every
  platform prints for the years 1000 to 9999.
\<close>

fun digits :: "nat \<Rightarrow> string" where
  "digits n = (if n < 10 then [''0123456789'' ! n]
               else digits (n div 10) @ [''0123456789'' ! (n mod 10)])"

declare digits.simps [simp del]

definition zfill :: "nat \<Rightarrow> string \<Rightarrow> string" where
  "zfill w s = replicate (w - length s) CHR ''0'' @ s"

definition format_d :: "nat \<Rightarrow> int \<Rightarrow> string" where
  \<comment> \<open>\<open>format(n, "0<w>d")\<close>: sign first, then zeros up to the total width \<open>w\<close>.\<close>
  "format_d w n =
     (if n < 0 then CHR ''-'' # zfill (w - 1) (digits (nat (- n)))
      else zfill w (digits (nat n)))"

definition DATE_FORMAT_strftime :: "date \<Rightarrow> string" where
  \<comment> \<open>\<open>d.strftime(DATE_FORMAT)\<close> with \<open>DATE_FORMAT = "%m-%d-%Y"\<close>.\<close>
  "DATE_FORMAT_strftime d =
     (case ord2ymd d of (y, m, dd) \<Rightarrow>
        format_d 2 m @ ''-'' @ format_d 2 dd @ ''-'' @ format_d 4 y)"

definition is_space :: "char \<Rightarrow> bool" where
  \<comment> \<open>The ASCII characters that \<open>str.strip()\<close> removes.\<close>
  "is_space c \<longleftrightarrow> c \<in> set [CHR '' '', CHR 0x09, CHR 0x0A, CHR 0x0B, CHR 0x0C, CHR 0x0D,
                            CHR 0x1C, CHR 0x1D, CHR 0x1E, CHR 0x1F]"

definition strip :: "string \<Rightarrow> string" where
  "strip s = rev (dropWhile is_space (rev (dropWhile is_space s)))"

definition lower_char :: "char \<Rightarrow> char" where
  \<comment> \<open>\<open>str.lower()\<close> on ASCII letters; every other byte stays as it is.\<close>
  "lower_char c =
     (case List.find (\<lambda>(u, l). u = c)
             (zip ''ABCDEFGHIJKLMNOPQRSTUVWXYZ'' ''abcdefghijklmnopqrstuvwxyz'') of
        Some (u, l) \<Rightarrow> l | None \<Rightarrow> c)"

definition lower :: "string \<Rightarrow> string" where
  "lower s = map lower_char s"

section \<open>The store\<close>

text \<open>
  The three tables of \<open>crear_tablas\<close>, each a list of rows in insertion order, and for
  each table the value that \<open>AUTOINCREMENT\<close> keeps in \<open>sqlite_sequence\<close>: the largest
  key ever given out. Dates are stored as text (\<open>fecha TEXT\<close>), shifts too.
\<close>

record cliente =
  c_id :: int
  c_nombre :: string
  c_apellidos :: string

record sala =
  s_id :: int
  s_nombre :: string
  s_cupo :: int

record reservacion =
  r_id :: int
  r_folio :: string
  r_cliente_id :: int
  r_sala_id :: int
  r_fecha :: string
  r_turno :: string
  r_nombre_evento :: string

record db =
  clientes :: "cliente list"
  salas :: "sala list"
  reservaciones :: "reservacion list"
  seq_clientes :: int
  seq_salas :: int
  seq_reservaciones :: int

definition TURNOS :: "string list" where
  "TURNOS = [''Matutino'', ''Vespertino'', ''Nocturno'']"

definition crear_tablas :: db where
  \<comment> \<open>The state of a new database file after \<open>crear_tablas\<close>: three empty tables.\<close>
  "crear_tablas = \<lparr>clientes = [], salas = [], reservaciones = [],
                    seq_clientes = 0, seq_salas = 0, seq_reservaciones = 0\<rparr>"

definition autoincrement :: "int \<Rightarrow> int list \<Rightarrow> int" where
  \<comment> \<open>The key of a new row: one more than the largest key that ever existed in the table.\<close>
  "autoincrement seq ids = max seq (foldr max ids 0) + 1"

definition restricciones :: "db \<Rightarrow> bool" where
  \<comment> \<open>What the schema enforces: the primary keys, \<open>CHECK(cupo>0)\<close>, \<open>folio UNIQUE\<close>
      and \<open>UNIQUE(sala_id, fecha, turno)\<close>.\<close>
  "restricciones d \<longleftrightarrow>
     distinct (map c_id (clientes d)) \<and>
     distinct (map s_id (salas d)) \<and>
     list_all (\<lambda>s. s_cupo s > 0) (salas d) \<and>
     distinct (map r_id (reservaciones d)) \<and>
     distinct (map r_folio (reservaciones d)) \<and>
     distinct (map (\<lambda>r. (r_sala_id r, r_fecha r, r_turno r)) (reservaciones d))"

subsection \<open>The SQL statements\<close>

text \<open>
  A statement that violates a constraint raises \<open>sqlite3.IntegrityError\<close> and changes
  nothing: the result is \<open>None\<close>. Foreign keys are declared but SQLite does not enforce
  them unless \<open>PRAGMA foreign_keys\<close> is switched on, which the program never does.
\<close>

definition insert_cliente :: "db \<Rightarrow> string \<Rightarrow> string \<Rightarrow> int \<times> db" where
  "insert_cliente d nombre apellidos =
     (let k = autoincrement (seq_clientes d) (map c_id (clientes d))
      in (k, d\<lparr>clientes := clientes d @ [\<lparr>c_id = k, c_nombre = nombre, c_apellidos = apellidos\<rparr>],
                seq_clientes := k\<rparr>))"

definition insert_sala :: "db \<Rightarrow> string \<Rightarrow> int \<Rightarrow> (int \<times> db) option" where
  "insert_sala d nombre cupo =
     (if \<not> cupo > 0 then None
      else let k = autoincrement (seq_salas d) (map s_id (salas d))
           in Some (k, d\<lparr>salas := salas d @ [\<lparr>s_id = k, s_nombre = nombre, s_cupo = cupo\<rparr>],
                          seq_salas := k\<rparr>))"

definition insert_reservacion ::
  "db \<Rightarrow> string \<Rightarrow> int \<Rightarrow> int \<Rightarrow> string \<Rightarrow> string \<Rightarrow> string \<Rightarrow> (int \<times> db) option" where
  "insert_reservacion d fol cli sal fec tur ev =
     (if list_ex (\<lambda>r. r_folio r = fol) (reservaciones d)
         \<or> list_ex (\<lambda>r. r_sala_id r = sal \<and> r_fecha r = fec \<and> r_turno r = tur) (reservaciones d)
      then None
      else let k = autoincrement (seq_reservaciones d) (map r_id (reservaciones d))
           in Some (k, d\<lparr>reservaciones := reservaciones d @
                             [\<lparr>r_id = k, r_folio = fol, r_cliente_id = cli, r_sala_id = sal,
                               r_fecha = fec, r_turno = tur, r_nombre_evento = ev\<rparr>],
                          seq_reservaciones := k\<rparr>))"

definition update_folio :: "db \<Rightarrow> string \<Rightarrow> int \<Rightarrow> db option" where
  \<comment> \<open>\<open>UPDATE reservaciones SET folio=? WHERE id=?\<close>\<close>
  "update_folio d fol k =
     (if list_ex (\<lambda>r. r_id r = k) (reservaciones d)
         \<and> list_ex (\<lambda>r. r_id r \<noteq> k \<and> r_folio r = fol) (reservaciones d)
      then None
      else Some (d\<lparr>reservaciones :=
                     map (\<lambda>r. if r_id r = k then r\<lparr>r_folio := fol\<rparr> else r) (reservaciones d)\<rparr>))"

definition update_nombre_evento :: "db \<Rightarrow> string \<Rightarrow> int \<Rightarrow> db" where
  \<comment> \<open>\<open>UPDATE reservaciones SET nombre_evento=? WHERE id=?\<close>\<close>
  "update_nombre_evento d nuevo k =
     d\<lparr>reservaciones :=
         map (\<lambda>r. if r_id r = k then r\<lparr>r_nombre_evento := nuevo\<rparr> else r) (reservaciones d)\<rparr>"

definition count_reservaciones :: "db \<Rightarrow> int \<Rightarrow> string \<Rightarrow> string \<Rightarrow> nat" where
  \<comment> \<open>\<open>SELECT COUNT(1) FROM reservaciones WHERE sala_id=? AND fecha=? AND turno=?\<close>\<close>
  "count_reservaciones d sal fec tur =
     length (filter (\<lambda>r. r_sala_id r = sal \<and> r_fecha r = fec \<and> r_turno r = tur) (reservaciones d))"

definition select_rango :: "db \<Rightarrow> string \<Rightarrow> string \<Rightarrow> (int \<times> string \<times> string \<times> string) list" where
  \<comment> \<open>\<open>SELECT id, folio, nombre_evento, fecha FROM reservaciones
       WHERE fecha BETWEEN ? AND ? ORDER BY fecha\<close>: \<open>fecha\<close> is a text column, so both the
      comparison and the order are those of the texts.\<close>
  "select_rango d desde_txt hasta_txt =
     map (\<lambda>r. (r_id r, r_folio r, r_nombre_evento r, r_fecha r))
       (sort_key r_fecha
          (filter (\<lambda>r. desde_txt \<le> r_fecha r \<and> r_fecha r \<le> hasta_txt) (reservaciones d)))"

definition select_por_fecha :: "db \<Rightarrow> string \<Rightarrow> (reservacion \<times> sala \<times> cliente) list" where
  \<comment> \<open>The rows of \<open>reservaciones r JOIN salas s ON r.sala_id = s.id
       JOIN clientes c ON r.cliente_id = c.id WHERE r.fecha = ? ORDER BY r.turno, s.id\<close>,
      before the columns are chosen; \<open>turno\<close> is a text column.\<close>
  "select_por_fecha d fec =
     sort_key (\<lambda>(r, s, c). (r_turno r, s_id s))
       [(r, s, c). r \<leftarrow> reservaciones d, s \<leftarrow> salas d, r_sala_id r = s_id s,
                   c \<leftarrow> clientes d, r_cliente_id r = c_id c, r_fecha r = fec]"

definition columnas_consulta ::
  "reservacion \<times> sala \<times> cliente \<Rightarrow> string \<times> string \<times> string \<times> string \<times> string \<times> int \<times> string" where
  \<comment> \<open>\<open>r.folio, r.nombre_evento, r.fecha, r.turno, s.nombre, s.cupo,
       c.apellidos || ', ' || c.nombre\<close>\<close>
  "columnas_consulta = (\<lambda>(r, s, c).
     (r_folio r, r_nombre_evento r, r_fecha r, r_turno r, s_nombre s, s_cupo s,
      c_apellidos c @ '', '' @ c_nombre c))"

section \<open>The terminal and the clock\<close>

text \<open>
  The user's lines are a finite list; each line comes with the calendar date on which it
  is submitted, since the program waits at a prompt for as long as the user likes and
  midnight may pass meanwhile. \<open>input()\<close> takes the next line and the clock moves to its
  date; at the end of the list \<open>input()\<close> raises \<open>EOFError\<close>. \<open>date.today()\<close> reads the
  clock. \<open>salida\<close> collects what \<open>print\<close> writes, one constructor per message of the
  program (the tables drawn by \<open>tabulate\<close> and the prompts are left out).

  Two library functions are parameters of the model: \<open>strptime\<close> is
  \<open>datetime.strptime(texto, DATE_FORMAT).date()\<close> and \<open>int_str\<close> is \<open>int(texto)\<close>, both
  with \<open>None\<close> where Python raises \<open>ValueError\<close>.
\<close>

datatype mensaje =
    NoHayClientes | OperacionCancelada | ClaveNoExiste | EntradaInvalida
  | FormatoFechaInvalido | FechaMuyProxima | ProponeLunes string | NoHaySalasDisponibles
  | SalasConTurnos | ClaveSalaInvalida | TurnosDisponibles "string list" | TurnoInvalido
  | EventoVacio | ReservacionRegistrada string | ErrorSalaYaReservada
  | NombreVacio | ApellidosVacios | ClienteRegistrado int
  | CupoNoPositivo | EnteroInvalido | SalaRegistrada int
  | ProporcioneRango | FormatoInvalido | FormatoInvalidoOFechaFinal | NoHayEventos
  | ClaveNoPertenece | NombreEventoActualizado
  | FormatoInvalidoUsandoActual | NoHayReservaciones

record mundo =
  pendientes :: "(date \<times> string) list"
  hoy :: date
  salida :: "mensaje list"

record biblioteca =
  strptime :: "string \<Rightarrow> date option"
  int_str :: "string \<Rightarrow> int option"

datatype error =
    EOFError       \<comment> \<open>\<open>input()\<close> at the end of the input, not caught: the program stops\<close>
  | NoRetorna      \<comment> \<open>\<open>input()\<close> at the end of the input inside \<open>try: ... except:\<close>: the loop
                       prints its message and asks again, for ever\<close>
  | StopIteration  \<comment> \<open>\<open>next(...)\<close> of an empty generator\<close>
  | Cancelado      \<comment> \<open>the user cancelled; the function returns\<close>
  | SinRegistros   \<comment> \<open>nothing to choose from; the function returns\<close>
  | Conflict       \<comment> \<open>\<open>sqlite3.IntegrityError\<close>, caught and reported\<close>
  | IntegrityError \<comment> \<open>\<open>sqlite3.IntegrityError\<close>, not caught: the program stops\<close>

definition py_input :: "mundo \<Rightarrow> (string \<times> mundo) option" where
  "py_input w = (case pendientes w of
                 [] \<Rightarrow> None
               | (t, s) # ps \<Rightarrow> Some (s, w\<lparr>pendientes := ps, hoy := t\<rparr>))"

definition py_print :: "mensaje \<Rightarrow> mundo \<Rightarrow> mundo" where
  "py_print m w = w\<lparr>salida := salida w @ [m]\<rparr>"

definition date_today :: "mundo \<Rightarrow> date" where
  "date_today w = hoy w"

lemma input_menos:
  "py_input w = Some (s, w') \<Longrightarrow> length (pendientes w') < length (pendientes w)"
  by (auto simp: py_input_def split: list.splits)

lemma pendientes_print [simp]: "pendientes (py_print m w) = pendientes w"
  by (simp add: py_print_def)

section \<open>The program\<close>

definition listar_clientes :: "db \<Rightarrow> cliente list" where
  \<comment> \<open>\<open>SELECT id, nombre, apellidos FROM clientes ORDER BY apellidos, nombre\<close>\<close>
  "listar_clientes d = sort_key (\<lambda>c. (c_apellidos c, c_nombre c)) (clientes d)"

definition listar_salas :: "db \<Rightarrow> sala list" where
  \<comment> \<open>\<open>SELECT id, nombre, cupo FROM salas ORDER BY id\<close>\<close>
  "listar_salas d = sort_key s_id (salas d)"

definition parsear_fecha :: "biblioteca \<Rightarrow> string \<Rightarrow> date option" where
  "parsear_fecha L texto = strptime L texto"

definition solicitar_fecha_minima :: "mundo \<Rightarrow> date" where
  "solicitar_fecha_minima w = timedelta_add (date_today w) 2"

definition es_domingo :: "date \<Rightarrow> bool" where
  "es_domingo d \<longleftrightarrow> weekday d = 6"

definition siguiente_lunes :: "date \<Rightarrow> date" where
  "siguiente_lunes d = (if weekday d = 6 then timedelta_add d 1 else d)"

fun turnos_libres :: "db \<Rightarrow> int \<Rightarrow> date \<Rightarrow> string list \<Rightarrow> string list" where
  \<comment> \<open>The inner loop of \<open>salas_disponibles_para_fecha\<close>, over \<open>TURNOS\<close>.\<close>
  "turnos_libres db sid d [] = []"
| "turnos_libres db sid d (t # ts) =
     (if count_reservaciones db sid (DATE_FORMAT_strftime d) t = 0
      then t # turnos_libres db sid d ts
      else turnos_libres db sid d ts)"

fun salas_con_turnos ::
  "db \<Rightarrow> date \<Rightarrow> sala list \<Rightarrow> (int \<times> string \<times> int \<times> string list) list" where
  \<comment> \<open>The outer loop of \<open>salas_disponibles_para_fecha\<close>, over the rooms.\<close>
  "salas_con_turnos db d [] = []"
| "salas_con_turnos db d (s # ss) =
     (let libres = turnos_libres db (s_id s) d TURNOS
      in if libres \<noteq> [] then (s_id s, s_nombre s, s_cupo s, libres) # salas_con_turnos db d ss
         else salas_con_turnos db d ss)"

definition salas_disponibles_para_fecha ::
  "db \<Rightarrow> date \<Rightarrow> (int \<times> string \<times> int \<times> string list) list" where
  "salas_disponibles_para_fecha db d = salas_con_turnos db d (listar_salas db)"

definition generar_folio :: "int \<Rightarrow> string" where
  "generar_folio res_id = CHR ''R'' # format_d 6 res_id"

subsection \<open>The loops that ask until the answer is valid\<close>

function pedir_no_vacio :: "mensaje \<Rightarrow> mundo \<Rightarrow> (error + string) \<times> mundo" where
  \<comment> \<open>\<open>while True: x = input(...).strip(); if x: break; print(...)\<close>\<close>
  "pedir_no_vacio m w =
     (case py_input w of
        None \<Rightarrow> (Inl EOFError, w)
      | Some (s, w1) \<Rightarrow>
          if strip s \<noteq> [] then (Inr (strip s), w1) else pedir_no_vacio m (py_print m w1))"
  by pat_completeness auto
termination
  by (relation "measure (\<lambda>(m, w). length (pendientes w))") (auto dest: input_menos)

declare pedir_no_vacio.simps [simp del]

function pedir_cliente :: "biblioteca \<Rightarrow> cliente list \<Rightarrow> mundo \<Rightarrow> (error + int) \<times> mundo" where
  \<comment> \<open>Lines 192 to 205 of \<open>registrar_reservacion\<close>.\<close>
  "pedir_cliente L cs w =
     (case py_input w of
        None \<Rightarrow> (Inl NoRetorna, w)
      | Some (s, w1) \<Rightarrow>
          if lower (strip s) = ''c'' then (Inl Cancelado, py_print OperacionCancelada w1)
          else (case int_str L (strip s) of
                  None \<Rightarrow> pedir_cliente L cs (py_print EntradaInvalida w1)
                | Some cliente_id \<Rightarrow>
                    if list_ex (\<lambda>c. c_id c = cliente_id) cs then (Inr cliente_id, w1)
                    else pedir_cliente L cs (py_print ClaveNoExiste w1)))"
  by pat_completeness auto
termination
  by (relation "measure (\<lambda>(L, cs, w). length (pendientes w))") (auto dest: input_menos)

declare pedir_cliente.simps [simp del]

function pedir_fecha ::
  "biblioteca \<Rightarrow> db \<Rightarrow> date \<Rightarrow> mundo \<Rightarrow>
     (error + date \<times> (int \<times> string \<times> int \<times> string list) list) \<times> mundo" where
  \<comment> \<open>Lines 207 to 228 of \<open>registrar_reservacion\<close>; \<open>min_fecha\<close> is computed before the
      loop, at line 206.\<close>
  "pedir_fecha L db min_fecha w =
     (case py_input w of
        None \<Rightarrow> (Inl EOFError, w)
      | Some (entrada, w1) \<Rightarrow>
          (case parsear_fecha L (strip entrada) of
             None \<Rightarrow> pedir_fecha L db min_fecha (py_print FormatoFechaInvalido w1)
           | Some d \<Rightarrow>
               if d < min_fecha then pedir_fecha L db min_fecha (py_print FechaMuyProxima w1)
               else if es_domingo d then
                 (let propuesta = timedelta_add d 1;
                      w2 = py_print (ProponeLunes (DATE_FORMAT_strftime propuesta)) w1
                  in case py_input w2 of
                       None \<Rightarrow> (Inl EOFError, w2)
                     | Some (aceptar, w3) \<Rightarrow>
                         if lower (strip aceptar) = ''s'' then
                           (let disponibles = salas_disponibles_para_fecha db propuesta
                            in if disponibles = []
                               then pedir_fecha L db min_fecha (py_print NoHaySalasDisponibles w3)
                               else (Inr (propuesta, disponibles), w3))
                         else pedir_fecha L db min_fecha w3)
               else
                 (let disponibles = salas_disponibles_para_fecha db d
                  in if disponibles = []
                     then pedir_fecha L db min_fecha (py_print NoHaySalasDisponibles w1)
                     else (Inr (d, disponibles), w1))))"
  by pat_completeness auto
termination
  by (relation "measure (\<lambda>(L, db, m, w). length (pendientes w))")
     (auto simp: py_input_def py_print_def split: list.splits)

declare pedir_fecha.simps [simp del]

function pedir_sala ::
  "biblioteca \<Rightarrow> (int \<times> string \<times> int \<times> string list) list \<Rightarrow> mundo \<Rightarrow> (error + int) \<times> mundo" where
  \<comment> \<open>Lines 234 to 245 of \<open>registrar_reservacion\<close>.\<close>
  "pedir_sala L disponibles w =
     (case py_input w of
        None \<Rightarrow> (Inl NoRetorna, w)
      | Some (s, w1) \<Rightarrow>
          (case int_str L (strip s) of
             None \<Rightarrow> pedir_sala L disponibles (py_print EntradaInvalida w1)
           | Some sala_elegida \<Rightarrow>
               if sala_elegida = 0 then (Inl Cancelado, py_print OperacionCancelada w1)
               else if list_ex (\<lambda>s. fst s = sala_elegida) disponibles then (Inr sala_elegida, w1)
               else pedir_sala L disponibles (py_print ClaveSalaInvalida w1)))"
  by pat_completeness auto
termination
  by (relation "measure (\<lambda>(L, ds, w). length (pendientes w))") (auto dest: input_menos)

declare pedir_sala.simps [simp del]

function pedir_turno :: "string list \<Rightarrow> mundo \<Rightarrow> (error + string) \<times> mundo" where
  \<comment> \<open>Lines 248 to 252 of \<open>registrar_reservacion\<close>.\<close>
  "pedir_turno sala_turnos w =
     (case py_input w of
        None \<Rightarrow> (Inl EOFError, w)
      | Some (s, w1) \<Rightarrow>
          if strip s \<in> set sala_turnos then (Inr (strip s), w1)
          else pedir_turno sala_turnos (py_print TurnoInvalido w1))"
  by pat_completeness auto
termination
  by (relation "measure (\<lambda>(ts, w). length (pendientes w))") (auto dest: input_menos)

declare pedir_turno.simps [simp del]

function pedir_cupo :: "biblioteca \<Rightarrow> mundo \<Rightarrow> (error + int) \<times> mundo" where
  \<comment> \<open>Lines 124 to 132 of \<open>registrar_sala\<close>.\<close>
  "pedir_cupo L w =
     (case py_input w of
        None \<Rightarrow> (Inl NoRetorna, w)
      | Some (s, w1) \<Rightarrow>
          (case int_str L (strip s) of
             None \<Rightarrow> pedir_cupo L (py_print EnteroInvalido w1)
           | Some cupo \<Rightarrow>
               if cupo > 0 then (Inr cupo, w1) else pedir_cupo L (py_print CupoNoPositivo w1)))"
  by pat_completeness auto
termination
  by (relation "measure (\<lambda>(L, w). length (pendientes w))") (auto dest: input_menos)

declare pedir_cupo.simps [simp del]

function pedir_desde :: "biblioteca \<Rightarrow> mundo \<Rightarrow> (error + date) \<times> mundo" where
  \<comment> \<open>Lines 278 to 283 of \<open>editar_nombre_evento\<close>.\<close>
  "pedir_desde L w =
     (case py_input w of
        None \<Rightarrow> (Inl EOFError, w)
      | Some (s, w1) \<Rightarrow>
          (case parsear_fecha L (strip s) of
             Some desde \<Rightarrow> (Inr desde, w1)
           | None \<Rightarrow> pedir_desde L (py_print FormatoInvalido w1)))"
  by pat_completeness auto
termination
  by (relation "measure (\<lambda>(L, w). length (pendientes w))") (auto dest: input_menos)

declare pedir_desde.simps [simp del]

function pedir_hasta :: "biblioteca \<Rightarrow> date \<Rightarrow> mundo \<Rightarrow> (error + date) \<times> mundo" where
  \<comment> \<open>Lines 284 to 289 of \<open>editar_nombre_evento\<close>.\<close>
  "pedir_hasta L desde w =
     (case py_input w of
        None \<Rightarrow> (Inl EOFError, w)
      | Some (s, w1) \<Rightarrow>
          (case parsear_fecha L (strip s) of
             Some hasta \<Rightarrow>
               if hasta \<ge> desde then (Inr hasta, w1)
               else pedir_hasta L desde (py_print FormatoInvalidoOFechaFinal w1)
           | None \<Rightarrow> pedir_hasta L desde (py_print FormatoInvalidoOFechaFinal w1)))"
  by pat_completeness auto
termination
  by (relation "measure (\<lambda>(L, d, w). length (pendientes w))") (auto dest: input_menos)

declare pedir_hasta.simps [simp del]

function pedir_clave ::
  "biblioteca \<Rightarrow> (int \<times> string \<times> string \<times> string) list \<Rightarrow> mundo \<Rightarrow> (error + int) \<times> mundo" where
  \<comment> \<open>Lines 301 to 314 of \<open>editar_nombre_evento\<close>; here \<open>input\<close> is outside the \<open>try\<close>.\<close>
  "pedir_clave L rows w =
     (case py_input w of
        None \<Rightarrow> (Inl EOFError, w)
      | Some (s, w1) \<Rightarrow>
          if lower (strip s) = ''c'' then (Inl Cancelado, py_print OperacionCancelada w1)
          else (case int_str L (strip s) of
                  None \<Rightarrow> pedir_clave L rows (py_print EntradaInvalida w1)
                | Some clave_id \<Rightarrow>
                    if list_ex (\<lambda>r. fst r = clave_id) rows then (Inr clave_id, w1)
                    else pedir_clave L rows (py_print ClaveNoPertenece w1)))"
  by pat_completeness auto
termination
  by (relation "measure (\<lambda>(L, rows, w). length (pendientes w))") (auto dest: input_menos)

declare pedir_clave.simps [simp del]

subsection \<open>The operations of the menu\<close>

text \<open>
  Every operation takes the terminal and the store and returns its outcome, the terminal
  and the store afterwards. The connection is opened and closed inside the operation and
  every change is committed at once, so the store returned is what the file holds.
\<close>

definition registrar_cliente :: "mundo \<Rightarrow> db \<Rightarrow> (error + int) \<times> mundo \<times> db" where
  "registrar_cliente w db =
     (case pedir_no_vacio NombreVacio w of
        (Inl e, w1) \<Rightarrow> (Inl e, w1, db)
      | (Inr nombre, w1) \<Rightarrow>
          (case pedir_no_vacio ApellidosVacios w1 of
             (Inl e, w2) \<Rightarrow> (Inl e, w2, db)
           | (Inr apellidos, w2) \<Rightarrow>
               (case insert_cliente db nombre apellidos of
                  (clave, db1) \<Rightarrow> (Inr clave, py_print (ClienteRegistrado clave) w2, db1))))"

definition registrar_sala :: "biblioteca \<Rightarrow> mundo \<Rightarrow> db \<Rightarrow> (error + int) \<times> mundo \<times> db" where
  "registrar_sala L w db =
     (case pedir_no_vacio NombreVacio w of
        (Inl e, w1) \<Rightarrow> (Inl e, w1, db)
      | (Inr nombre, w1) \<Rightarrow>
          (case pedir_cupo L w1 of
             (Inl e, w2) \<Rightarrow> (Inl e, w2, db)
           | (Inr cupo, w2) \<Rightarrow>
               (case insert_sala db nombre cupo of
                  None \<Rightarrow> (Inl IntegrityError, w2, db)
                | Some (clave, db1) \<Rightarrow> (Inr clave, py_print (SalaRegistrada clave) w2, db1))))"

definition guardar_reservacion ::
  "db \<Rightarrow> int \<Rightarrow> int \<Rightarrow> string \<Rightarrow> string \<Rightarrow> string \<Rightarrow> mundo \<Rightarrow> (error + string) \<times> mundo \<times> db" where
  \<comment> \<open>Lines 258 to 273 of \<open>registrar_reservacion\<close>: the insertion with an empty folio,
      committed, then the folio written into the new row, committed. An
      \<open>IntegrityError\<close> of either statement is caught by the same \<open>except\<close>; the second
      one comes after the first commit.\<close>
  "guardar_reservacion db cliente_id sala_elegida fecha_str turno nombre_evento w =
     (case insert_reservacion db [] cliente_id sala_elegida fecha_str turno nombre_evento of
        None \<Rightarrow> (Inl Conflict, py_print ErrorSalaYaReservada w, db)
      | Some (res_id, db1) \<Rightarrow>
          (let folio = generar_folio res_id
           in case update_folio db1 folio res_id of
                None \<Rightarrow> (Inl Conflict, py_print ErrorSalaYaReservada w, db1)
              | Some db2 \<Rightarrow> (Inr folio, py_print (ReservacionRegistrada folio) w, db2)))"

definition registrar_reservacion ::
  "biblioteca \<Rightarrow> mundo \<Rightarrow> db \<Rightarrow> (error + string) \<times> mundo \<times> db" where
  "registrar_reservacion L w db =
     (let cs = listar_clientes db
      in if cs = [] then (Inl SinRegistros, py_print NoHayClientes w, db)
         else
           (case pedir_cliente L cs w of
              (Inl e, w1) \<Rightarrow> (Inl e, w1, db)
            | (Inr cliente_id, w1) \<Rightarrow>
                (let min_fecha = solicitar_fecha_minima w1
                 in case pedir_fecha L db min_fecha w1 of
                      (Inl e, w2) \<Rightarrow> (Inl e, w2, db)
                    | (Inr (d, disponibles), w2) \<Rightarrow>
                        (case pedir_sala L disponibles (py_print SalasConTurnos w2) of
                           (Inl e, w3) \<Rightarrow> (Inl e, w3, db)
                         | (Inr sala_elegida, w3) \<Rightarrow>
                             (case List.find (\<lambda>s. fst s = sala_elegida) disponibles of
                                None \<Rightarrow> (Inl StopIteration, w3, db)
                              | Some s \<Rightarrow>
                                  (let sala_turnos = snd (snd (snd s))
                                   in case pedir_turno sala_turnos
                                             (py_print (TurnosDisponibles sala_turnos) w3) of
                                        (Inl e, w4) \<Rightarrow> (Inl e, w4, db)
                                      | (Inr turno, w4) \<Rightarrow>
                                          (case pedir_no_vacio EventoVacio w4 of
                                             (Inl e, w5) \<Rightarrow> (Inl e, w5, db)
                                           | (Inr nombre_evento, w5) \<Rightarrow>
                                               guardar_reservacion db cliente_id sala_elegida
                                                 (DATE_FORMAT_strftime d) turno nombre_evento
                                                 w5)))))))"


definition reservaciones_en_rango ::
  "db \<Rightarrow> date \<Rightarrow> date \<Rightarrow> (int \<times> string \<times> string \<times> string) list" where
  \<comment> \<open>Lines 290 to 294 of \<open>editar_nombre_evento\<close>.\<close>
  "reservaciones_en_rango db desde hasta =
     select_rango db (DATE_FORMAT_strftime desde) (DATE_FORMAT_strftime hasta)"

definition editar_nombre_evento ::
  "biblioteca \<Rightarrow> mundo \<Rightarrow> db \<Rightarrow> (error + unit) \<times> mundo \<times> db" where
  "editar_nombre_evento L w db =
     (case pedir_desde L (py_print ProporcioneRango w) of
        (Inl e, w1) \<Rightarrow> (Inl e, w1, db)
      | (Inr desde, w1) \<Rightarrow>
          (case pedir_hasta L desde w1 of
             (Inl e, w2) \<Rightarrow> (Inl e, w2, db)
           | (Inr hasta, w2) \<Rightarrow>
               (let rows = reservaciones_en_rango db desde hasta
                in if rows = [] then (Inl SinRegistros, py_print NoHayEventos w2, db)
                   else
                     (case pedir_clave L rows w2 of
                        (Inl e, w3) \<Rightarrow> (Inl e, w3, db)
                      | (Inr clave_id, w3) \<Rightarrow>
                          (case pedir_no_vacio EventoVacio w3 of
                             (Inl e, w4) \<Rightarrow> (Inl e, w4, db)
                           | (Inr nuevo_nombre, w4) \<Rightarrow>
                               (Inr (), py_print NombreEventoActualizado w4,
                                update_nombre_evento db nuevo_nombre clave_id))))))"

definition reservaciones_de_fecha :: "db \<Rightarrow> date \<Rightarrow> (reservacion \<times> sala \<times> cliente) list" where
  \<comment> \<open>Lines 335 to 344 of \<open>consultar_reservaciones\<close>, before the columns are chosen.\<close>
  "reservaciones_de_fecha db d = select_por_fecha db (DATE_FORMAT_strftime d)"

definition consultar_reservaciones ::
  "biblioteca \<Rightarrow> mundo \<Rightarrow> db \<Rightarrow>
     (error + (string \<times> string \<times> string \<times> string \<times> string \<times> int \<times> string) list) \<times> mundo" where
  \<comment> \<open>\<open>consultar_reservaciones\<close> up to the table it prints; the dialogue about exporting
      the table, which follows, writes files and is not part of the model.\<close>
  "consultar_reservaciones L w db =
     (case py_input w of
        None \<Rightarrow> (Inl EOFError, w)
      | Some (s, w1) \<Rightarrow>
          (let (d, w2) =
                 (if strip s = [] then (date_today w1, w1)
                  else (case parsear_fecha L (strip s) of
                          None \<Rightarrow> (date_today w1, py_print FormatoInvalidoUsandoActual w1)
                        | Some d \<Rightarrow> (d, w1)));
               rows = map columnas_consulta (reservaciones_de_fecha db d)
           in if rows = [] then (Inl SinRegistros, py_print NoHayReservaciones w2)
              else (Inr rows, w2)))"

text \<open>
  The stores the program can produce: \<open>main\<close> creates the tables and \<open>menu_principal\<close>
  runs the operations one after another, each on the store the previous one left.
\<close>

inductive alcanzable :: "db \<Rightarrow> bool" where
  inicio: "alcanzable crear_tablas"
| paso_cliente: "alcanzable db \<Longrightarrow> registrar_cliente w db = (r, w', db') \<Longrightarrow> alcanzable db'"
| paso_sala: "alcanzable db \<Longrightarrow> registrar_sala L w db = (r, w', db') \<Longrightarrow> alcanzable db'"
| paso_reservacion:
    "alcanzable db \<Longrightarrow> registrar_reservacion L w db = (r, w', db') \<Longrightarrow> alcanzable db'"
| paso_edicion:
    "alcanzable db \<Longrightarrow> editar_nombre_evento L w db = (r, w', db') \<Longrightarrow> alcanzable db'"

definition reservado :: "db \<Rightarrow> int \<Rightarrow> date \<Rightarrow> string \<Rightarrow> bool" where
  \<comment> \<open>The store holds a reservation for (room, date, shift).\<close>
  "reservado db sid d t \<longleftrightarrow>
     list_ex (\<lambda>r. r_sala_id r = sid \<and> r_fecha r = DATE_FORMAT_strftime d \<and> r_turno r = t)
       (reservaciones db)"

definition valor :: "string \<Rightarrow> nat" where
  \<comment> \<open>The number that a text of decimal digits denotes.\<close>
  "valor s = foldl (\<lambda>a c. 10 * a + (of_char c - 48)) 0 s"

definition folios_generados :: "db \<Rightarrow> bool" where
  \<comment> \<open>Every stored folio is the one generated from the key of its row.\<close>
  "folios_generados db \<longleftrightarrow>
     list_all (\<lambda>r. r_folio r = generar_folio (r_id r)) (reservaciones db)"

definition folios_en_regla :: "db \<Rightarrow> bool" where
  \<comment> \<open>Every stored folio is the one generated from the key of its row, or is still the
      empty text that the insertion writes first.\<close>
  "folios_en_regla db \<longleftrightarrow>
     list_all (\<lambda>r. r_folio r = [] \<or> r_folio r = generar_folio (r_id r)) (reservaciones db)"

definition invariante :: "db \<Rightarrow> bool" where
  "invariante db \<longleftrightarrow> restricciones db \<and> folios_generados db"

definition fila_nueva :: "db \<Rightarrow> int \<Rightarrow> int \<Rightarrow> string \<Rightarrow> string \<Rightarrow> string \<Rightarrow> reservacion" where
  \<comment> \<open>The row that a successful booking leaves in the store.\<close>
  "fila_nueva db cli sal fec tur ev =
     (let k = autoincrement (seq_reservaciones db) (map r_id (reservaciones db))
      in \<lparr>r_id = k, r_folio = generar_folio k, r_cliente_id = cli, r_sala_id = sal,
          r_fecha = fec, r_turno = tur, r_nombre_evento = ev\<rparr>)"



definition posicion_turno :: "string \<Rightarrow> nat" where
  \<comment> \<open>The place of a shift in the enumeration \<open>TURNOS\<close>.\<close>
  "posicion_turno t = length (takeWhile (\<lambda>x. x \<noteq> t) TURNOS)"

section \<open>Examples\<close>

text \<open>
  A library that knows a few texts, a store with one client, two rooms and seven
  reservations, and a terminal on which every line is typed on the same day. On
  2026-11-06 room 1 is taken for the three shifts and room 2 is free in the morning.
\<close>

definition L_ej :: biblioteca where
  "L_ej = \<lparr>strptime = map_of
             [(''11-05-2026'', ymd2ord 2026 11 5), (''11-06-2026'', ymd2ord 2026 11 6),
              (''11-08-2026'', ymd2ord 2026 11 8), (''11-09-2026'', ymd2ord 2026 11 9),
              (''12-01-2026'', ymd2ord 2026 12 1), (''01-31-2027'', ymd2ord 2027 1 31),
              (''01-01-2027'', ymd2ord 2027 1 1), (''12-31-2027'', ymd2ord 2027 12 31)],
           int_str = map_of [(''0'', 0), (''1'', 1), (''2'', 2), (''3'', 3), (''10'', 10)]\<rparr>"

definition db_ej :: db where
  "db_ej = \<lparr>clientes = [\<lparr>c_id = 1, c_nombre = ''Jane'', c_apellidos = ''Doe''\<rparr>],
            salas = [\<lparr>s_id = 1, s_nombre = ''Hall A'', s_cupo = 10\<rparr>,
                     \<lparr>s_id = 2, s_nombre = ''Hall B'', s_cupo = 20\<rparr>],
            reservaciones =
              [\<lparr>r_id = 1, r_folio = ''R000001'', r_cliente_id = 1, r_sala_id = 1,
                r_fecha = ''11-06-2026'', r_turno = ''Matutino'', r_nombre_evento = ''Workshop''\<rparr>,
               \<lparr>r_id = 2, r_folio = ''R000002'', r_cliente_id = 1, r_sala_id = 1,
                r_fecha = ''11-06-2026'', r_turno = ''Vespertino'', r_nombre_evento = ''Seminar''\<rparr>,
               \<lparr>r_id = 3, r_folio = ''R000003'', r_cliente_id = 1, r_sala_id = 1,
                r_fecha = ''11-06-2026'', r_turno = ''Nocturno'', r_nombre_evento = ''Concert''\<rparr>,
               \<lparr>r_id = 4, r_folio = ''R000004'', r_cliente_id = 1, r_sala_id = 2,
                r_fecha = ''11-06-2026'', r_turno = ''Vespertino'', r_nombre_evento = ''Course''\<rparr>,
               \<lparr>r_id = 5, r_folio = ''R000005'', r_cliente_id = 1, r_sala_id = 2,
                r_fecha = ''11-06-2026'', r_turno = ''Nocturno'', r_nombre_evento = ''Dinner''\<rparr>,
               \<lparr>r_id = 6, r_folio = ''R000006'', r_cliente_id = 1, r_sala_id = 1,
                r_fecha = ''12-15-2026'', r_turno = ''Matutino'', r_nombre_evento = ''Review''\<rparr>,
               \<lparr>r_id = 7, r_folio = ''R000007'', r_cliente_id = 1, r_sala_id = 1,
                r_fecha = ''06-15-2030'', r_turno = ''Matutino'', r_nombre_evento = ''Reunion''\<rparr>],
            seq_clientes = 1, seq_salas = 2, seq_reservaciones = 7\<rparr>"

definition teclado :: "date \<Rightarrow> string list \<Rightarrow> mundo" where
  "teclado t ls = \<lparr>pendientes = map (Pair t) ls, hoy = t, salida = []\<rparr>"

text \<open>
  A session of the program on a new database, all on 2026-11-04: a client, a room, and two
  reservations for 2026-11-06.
\<close>

definition db_paso1 :: db where
  "db_paso1 = snd (snd (registrar_cliente (teclado (ymd2ord 2026 11 4) [''Jane'', ''Doe'']) crear_tablas))"

definition db_paso2 :: db where
  "db_paso2 = snd (snd (registrar_sala L_ej (teclado (ymd2ord 2026 11 4) [''Hall A'', ''10'']) db_paso1))"

definition db_paso3 :: db where
  "db_paso3 = snd (snd (registrar_reservacion L_ej
       (teclado (ymd2ord 2026 11 4) [''1'', ''11-06-2026'', ''1'', ''Matutino'', ''Workshop'']) db_paso2))"

definition db_paso4 :: db where
  "db_paso4 = snd (snd (registrar_reservacion L_ej
       (teclado (ymd2ord 2026 11 4) [''1'', ''11-06-2026'', ''1'', ''Nocturno'', ''Concert'']) db_paso3))"

definition w_edicion :: mundo where
  "w_edicion = teclado (ymd2ord 2026 11 4)
                 [''11-06-2026'', '' 11-06-2026 '', ''x'', ''2'', ''  '', ''Gala'']"

text \<open>
  The states of the terminal of \<open>w_edicion\<close> at the prompt for the key and at the prompt
  for the new name.
\<close>

definition w_edicion_clave :: mundo where
  "w_edicion_clave = \<lparr>pendientes = map (Pair (ymd2ord 2026 11 4)) [''x'', ''2'', ''  '', ''Gala''],
                      hoy = ymd2ord 2026 11 4, salida = [ProporcioneRango]\<rparr>"

definition w_edicion_nombre :: mundo where
  "w_edicion_nombre = \<lparr>pendientes = map (Pair (ymd2ord 2026 11 4)) [''  '', ''Gala''],
                       hoy = ymd2ord 2026 11 4, salida = [ProporcioneRango, EntradaInvalida]\<rparr>"









lemmas fecha_defs =
  DATE_FORMAT_strftime_def ymd2ord_def ord2ymd_def days_before_year_def days_before_month_def
  is_leap_def DAYS_BEFORE_MONTH_def DAYS_IN_MONTH_def format_d_def zfill_def digits.simps Let_def

lemma strftime_ej:
  "DATE_FORMAT_strftime (ymd2ord 2026 11 5) = ''11-05-2026''"
  "DATE_FORMAT_strftime (ymd2ord 2026 11 6) = ''11-06-2026''"
  "DATE_FORMAT_strftime (ymd2ord 2026 11 8) = ''11-08-2026''"
  "DATE_FORMAT_strftime (ymd2ord 2026 11 9) = ''11-09-2026''"
  "DATE_FORMAT_strftime (ymd2ord 2026 12 1) = ''12-01-2026''"
  "DATE_FORMAT_strftime (ymd2ord 2026 12 15) = ''12-15-2026''"
  "DATE_FORMAT_strftime (ymd2ord 2027 1 1) = ''01-01-2027''"
  "DATE_FORMAT_strftime (ymd2ord 2027 1 31) = ''01-31-2027''"
  "DATE_FORMAT_strftime (ymd2ord 2027 12 31) = ''12-31-2027''"
  "DATE_FORMAT_strftime (ymd2ord 2030 6 15) = ''06-15-2030''"
  by (simp_all add: fecha_defs)

lemmas texto_defs = strip_def is_space_def lower_def lower_char_def

lemmas mundo_defs = teclado_def py_input_def py_print_def date_today_def

lemmas bucle_simps = pedir_no_vacio.simps pedir_cliente.simps pedir_fecha.simps pedir_sala.simps
  pedir_turno.simps pedir_cupo.simps pedir_desde.simps pedir_hasta.simps pedir_clave.simps

lemmas sql_defs = insert_cliente_def insert_sala_def insert_reservacion_def update_folio_def
  update_nombre_evento_def count_reservaciones_def select_rango_def select_por_fecha_def
  autoincrement_def

lemmas programa_defs = listar_clientes_def listar_salas_def parsear_fecha_def
  solicitar_fecha_minima_def es_domingo_def weekday_def timedelta_add_def
  salas_disponibles_para_fecha_def generar_folio_def TURNOS_def
  registrar_cliente_def registrar_sala_def guardar_reservacion_def registrar_reservacion_def
  reservaciones_en_rango_def editar_nombre_evento_def reservaciones_de_fecha_def

lemma replicate_numeral: "replicate (numeral k) x = x # replicate (pred_numeral k) x"
  by (simp add: numeral_eq_Suc)


section \<open>Availability\<close>

lemma turnos_libres_filter:
  "turnos_libres db sid d ts =
     filter (\<lambda>t. count_reservaciones db sid (DATE_FORMAT_strftime d) t = 0) ts"
  by (induction ts) simp_all

lemma count_reservaciones_cero:
  "count_reservaciones db sid (DATE_FORMAT_strftime d) t = 0 \<longleftrightarrow> \<not> reservado db sid d t"
  by (auto simp: count_reservaciones_def reservado_def list_ex_iff filter_empty_conv)

lemma set_salas_con_turnos:
  "set (salas_con_turnos db d ss) =
     {(s_id s, s_nombre s, s_cupo s, turnos_libres db (s_id s) d TURNOS) | s.
        s \<in> set ss \<and> turnos_libres db (s_id s) d TURNOS \<noteq> []}"
  by (induction ss) (auto simp: Let_def)

lemma set_listar_salas: "set (listar_salas db) = set (salas db)"
  by (simp add: listar_salas_def)

text \<open>
  C8. For every date and every store, a room is in the result of
  \<open>salas_disponibles_para_fecha\<close>, paired with the shifts that have no reservation for
  that room and date, exactly when it is a registered room and at least one of the three
  shifts is free; so no room of the result has an empty list of shifts, and every shift
  listed for a room has no reservation for (room, date, shift).
\<close>

theorem salas_disponibles_para_fecha_correcta:
  "((sid, nom, cupo, ts) \<in> set (salas_disponibles_para_fecha db d) \<longleftrightarrow>
      list_ex (\<lambda>s. s_id s = sid \<and> s_nombre s = nom \<and> s_cupo s = cupo) (salas db) \<and>
      ts = filter (\<lambda>t. \<not> reservado db sid d t) TURNOS \<and>
      list_ex (\<lambda>t. \<not> reservado db sid d t) TURNOS) \<and>
   ((sid, nom, cupo, ts) \<in> set (salas_disponibles_para_fecha db d) \<longrightarrow>
      ts \<noteq> [] \<and> (\<forall>t \<in> set ts. t \<in> set TURNOS \<and> \<not> reservado db sid d t))"
proof -
  have iff: "(sid, nom, cupo, ts) \<in> set (salas_disponibles_para_fecha db d) \<longleftrightarrow>
      list_ex (\<lambda>s. s_id s = sid \<and> s_nombre s = nom \<and> s_cupo s = cupo) (salas db) \<and>
      ts = filter (\<lambda>t. \<not> reservado db sid d t) TURNOS \<and>
      list_ex (\<lambda>t. \<not> reservado db sid d t) TURNOS"
    unfolding salas_disponibles_para_fecha_def set_salas_con_turnos set_listar_salas
      turnos_libres_filter count_reservaciones_cero
    by (auto simp: list_ex_iff filter_empty_conv)
  moreover have "ts \<noteq> [] \<and> (\<forall>t \<in> set ts. t \<in> set TURNOS \<and> \<not> reservado db sid d t)"
    if "(sid, nom, cupo, ts) \<in> set (salas_disponibles_para_fecha db d)"
    using that unfolding iff by (auto simp: list_ex_iff filter_empty_conv)
  ultimately show ?thesis by blast
qed

theorem salas_disponibles_para_fecha_correcta_witness:
  "(2, ''Hall B'', 20, [''Matutino'']) \<in> set (salas_disponibles_para_fecha db_ej (ymd2ord 2026 11 6))
   \<and> \<not> reservado db_ej 2 (ymd2ord 2026 11 6) ''Matutino''
   \<and> reservado db_ej 2 (ymd2ord 2026 11 6) ''Nocturno''
   \<and> (1, ''Hall A'', 10, []) \<notin> set (salas_disponibles_para_fecha db_ej (ymd2ord 2026 11 6))
   \<and> \<not> list_ex (\<lambda>t. \<not> reservado db_ej 1 (ymd2ord 2026 11 6) t) TURNOS"
proof -
  have a: "list_ex (\<lambda>s. s_id s = 2 \<and> s_nombre s = ''Hall B'' \<and> s_cupo s = 20) (salas db_ej)"
    by (simp add: db_ej_def)
  have b: "[''Matutino''] = filter (\<lambda>t. \<not> reservado db_ej 2 (ymd2ord 2026 11 6) t) TURNOS"
    by (simp add: reservado_def strftime_ej db_ej_def TURNOS_def)
  have c: "list_ex (\<lambda>t. \<not> reservado db_ej 2 (ymd2ord 2026 11 6) t) TURNOS"
    by (simp add: reservado_def strftime_ej db_ej_def TURNOS_def)
  have d: "reservado db_ej 2 (ymd2ord 2026 11 6) ''Nocturno''"
    by (simp add: reservado_def strftime_ej db_ej_def)
  have e: "\<not> list_ex (\<lambda>t. \<not> reservado db_ej 1 (ymd2ord 2026 11 6) t) TURNOS"
    by (simp add: reservado_def strftime_ej db_ej_def TURNOS_def)
  have m: "(2, ''Hall B'', 20, [''Matutino'']) \<in>
             set (salas_disponibles_para_fecha db_ej (ymd2ord 2026 11 6))"
    using salas_disponibles_para_fecha_correcta
            [of 2 "''Hall B''" 20 "[''Matutino'']" db_ej "ymd2ord 2026 11 6"] a b c
    by blast
  have n: "\<not> reservado db_ej 2 (ymd2ord 2026 11 6) ''Matutino''"
    using salas_disponibles_para_fecha_correcta
            [of 2 "''Hall B''" 20 "[''Matutino'']" db_ej "ymd2ord 2026 11 6"] m
    by simp
  have o: "(1, ''Hall A'', 10, []) \<notin> set (salas_disponibles_para_fecha db_ej (ymd2ord 2026 11 6))"
    using salas_disponibles_para_fecha_correcta
            [of 1 "''Hall A''" 10 "[]" db_ej "ymd2ord 2026 11 6"] e
    by blast
  from m n d o e show ?thesis by blast
qed

section \<open>The loops return what they checked\<close>

lemma pedir_no_vacio_Inr:
  "pedir_no_vacio m w = (Inr s, w') \<Longrightarrow> s \<noteq> []"
proof (induction m w rule: pedir_no_vacio.induct)
  case (1 m w)
  then show ?case
    by (subst (asm) (2) pedir_no_vacio.simps) (fastforce split: option.splits if_splits)
qed

lemma pedir_clave_Inr:
  "pedir_clave L rows w = (Inr k, w') \<Longrightarrow> list_ex (\<lambda>r. fst r = k) rows"
proof (induction L rows w rule: pedir_clave.induct)
  case (1 L rows w)
  then show ?case
    by (subst (asm) (3) pedir_clave.simps) (auto split: option.splits if_splits)
qed

lemma select_rango_ids:
  "list_ex (\<lambda>r. fst r = k) (select_rango db a b) \<Longrightarrow>
     list_ex (\<lambda>r. r_id r = k) (reservaciones db)"
  by (auto simp: select_rango_def list_ex_iff)

section \<open>Editing an event name\<close>

lemma py_input_pendientes:
  "py_input w = Some (s, w1) \<Longrightarrow> \<exists>t. pendientes w = (t, s) # pendientes w1"
  by (auto simp: py_input_def split: list.splits)

lemma pedir_clave_tecleada:
  "pedir_clave L rows w = (Inr k, w') \<Longrightarrow>
     list_ex (\<lambda>(t, s). int_str L (strip s) = Some k) (pendientes w)"
proof (induction L rows w rule: pedir_clave.induct)
  case (1 L rows w)
  show ?case
  proof (cases "py_input w")
    case None
    with "1.prems" show ?thesis by (simp add: pedir_clave.simps [of L rows w])
  next
    case (Some p)
    obtain s w1 where i: "py_input w = Some (s, w1)" using Some by (cases p) simp
    from py_input_pendientes [OF i] obtain t where t: "pendientes w = (t, s) # pendientes w1" ..
    show ?thesis
    proof (cases "lower (strip s) = ''c''")
      case True
      with "1.prems" i show ?thesis by (simp add: pedir_clave.simps [of L rows w])
    next
      case False
      show ?thesis
      proof (cases "int_str L (strip s)")
        case None
        have "pedir_clave L rows (py_print EntradaInvalida w1) = (Inr k, w')"
          using "1.prems" i False None by (simp add: pedir_clave.simps [of L rows w])
        from "1.IH"(1) [OF i refl False None this] show ?thesis
          by (simp add: t)
      next
        case (Some c)
        show ?thesis
        proof (cases "list_ex (\<lambda>r. fst r = c) rows")
          case True
          then have "c = k"
            using "1.prems" i False Some by (simp add: pedir_clave.simps [of L rows w])
          then show ?thesis using Some by (simp add: t)
        next
          case no: False
          have "pedir_clave L rows (py_print ClaveNoPertenece w1) = (Inr k, w')"
            using "1.prems" i False Some no by (simp add: pedir_clave.simps [of L rows w])
          from "1.IH"(2) [OF i refl False Some no this] show ?thesis
            by (simp add: t)
        qed
      qed
    qed
  qed
qed

lemma pedir_no_vacio_tecleado:
  "pedir_no_vacio m w = (Inr x, w') \<Longrightarrow> list_ex (\<lambda>(t, s). strip s = x) (pendientes w)"
proof (induction m w rule: pedir_no_vacio.induct)
  case (1 m w)
  show ?case
  proof (cases "py_input w")
    case None
    with "1.prems" show ?thesis by (simp add: pedir_no_vacio.simps [of m w])
  next
    case (Some p)
    obtain s w1 where i: "py_input w = Some (s, w1)" using Some by (cases p) simp
    from py_input_pendientes [OF i] obtain t where t: "pendientes w = (t, s) # pendientes w1" ..
    show ?thesis
    proof (cases "strip s \<noteq> []")
      case True
      then have "strip s = x"
        using "1.prems" i by (simp add: pedir_no_vacio.simps [of m w])
      then show ?thesis by (simp add: t)
    next
      case False
      have "pedir_no_vacio m (py_print m w1) = (Inr x, w')"
        using "1.prems" i False by (simp add: pedir_no_vacio.simps [of m w])
      from "1.IH" [OF i refl False this] show ?thesis
        by (simp add: t)
    qed
  qed
qed

lemma editar_nombre_evento_pasos:
  assumes "editar_nombre_evento L w db = (Inr u, w', db')"
  shows "\<exists>desde w1 hasta w2 clave w3 nuevo w4.
           pedir_desde L (py_print ProporcioneRango w) = (Inr desde, w1) \<and>
           pedir_hasta L desde w1 = (Inr hasta, w2) \<and>
           pedir_clave L (reservaciones_en_rango db desde hasta) w2 = (Inr clave, w3) \<and>
           pedir_no_vacio EventoVacio w3 = (Inr nuevo, w4) \<and>
           w' = py_print NombreEventoActualizado w4 \<and>
           db' = update_nombre_evento db nuevo clave"
  using assms
  by (auto simp: editar_nombre_evento_def Let_def
      split: prod.splits sum.splits if_splits)

text \<open>
  C10. Whenever \<open>editar_nombre_evento\<close> succeeds, the key is the one that the loop asking
  for the key returned, which the user typed at that prompt and which is the key of a
  listed and stored reservation, and the new name is the one that the loop asking for the
  name returned, which the user typed at that prompt and which is not empty. With that key
  and that name: the clients, the rooms and the counters of the store are unchanged, the
  reservations are as many as before and stay in their places, every reservation keeps its
  key, folio, client reference, room reference, date and shift, the reservation with that
  key has the new event name, and every other reservation is unchanged altogether.
\<close>

theorem editar_nombre_evento_solo_el_nombre:
  assumes "editar_nombre_evento L w db = (Inr u, w', db')"
  shows "\<exists>desde w1 hasta w2 clave w3 nuevo w4.
     pedir_desde L (py_print ProporcioneRango w) = (Inr desde, w1) \<and>
     pedir_hasta L desde w1 = (Inr hasta, w2) \<and>
     pedir_clave L (reservaciones_en_rango db desde hasta) w2 = (Inr clave, w3) \<and>
     pedir_no_vacio EventoVacio w3 = (Inr nuevo, w4) \<and>
     w' = py_print NombreEventoActualizado w4 \<and>
     list_ex (\<lambda>(t, s). int_str L (strip s) = Some clave) (pendientes w2) \<and>
     list_ex (\<lambda>(t, s). strip s = nuevo) (pendientes w3) \<and>
     list_ex (\<lambda>r. fst r = clave) (reservaciones_en_rango db desde hasta) \<and>
     list_ex (\<lambda>r. r_id r = clave) (reservaciones db) \<and> nuevo \<noteq> [] \<and>
     clientes db' = clientes db \<and> salas db' = salas db \<and>
     seq_clientes db' = seq_clientes db \<and> seq_salas db' = seq_salas db \<and>
     seq_reservaciones db' = seq_reservaciones db \<and>
     length (reservaciones db') = length (reservaciones db) \<and>
     (\<forall>i < length (reservaciones db).
        r_id (reservaciones db' ! i) = r_id (reservaciones db ! i) \<and>
        r_folio (reservaciones db' ! i) = r_folio (reservaciones db ! i) \<and>
        r_cliente_id (reservaciones db' ! i) = r_cliente_id (reservaciones db ! i) \<and>
        r_sala_id (reservaciones db' ! i) = r_sala_id (reservaciones db ! i) \<and>
        r_fecha (reservaciones db' ! i) = r_fecha (reservaciones db ! i) \<and>
        r_turno (reservaciones db' ! i) = r_turno (reservaciones db ! i) \<and>
        (r_id (reservaciones db ! i) = clave \<longrightarrow>
           r_nombre_evento (reservaciones db' ! i) = nuevo) \<and>
        (r_id (reservaciones db ! i) \<noteq> clave \<longrightarrow>
           reservaciones db' ! i = reservaciones db ! i))"
proof -
  from editar_nombre_evento_pasos [OF assms] obtain desde w1 hasta w2 clave w3 nuevo w4 where
    p: "pedir_desde L (py_print ProporcioneRango w) = (Inr desde, w1)"
       "pedir_hasta L desde w1 = (Inr hasta, w2)"
       "pedir_clave L (reservaciones_en_rango db desde hasta) w2 = (Inr clave, w3)"
       "pedir_no_vacio EventoVacio w3 = (Inr nuevo, w4)"
       "w' = py_print NombreEventoActualizado w4"
    and d: "db' = update_nombre_evento db nuevo clave"
    by blast
  note k = pedir_clave_Inr [OF p(3)]
  have k': "list_ex (\<lambda>r. r_id r = clave) (reservaciones db)"
    using k by (simp add: reservaciones_en_rango_def select_rango_ids)
  note t1 = pedir_clave_tecleada [OF p(3)]
  note t2 = pedir_no_vacio_tecleado [OF p(4)]
  note n = pedir_no_vacio_Inr [OF p(4)]
  show ?thesis
    apply (rule exI [of _ desde], rule exI [of _ w1], rule exI [of _ hasta], rule exI [of _ w2],
           rule exI [of _ clave], rule exI [of _ w3], rule exI [of _ nuevo], rule exI [of _ w4])
    using p k k' t1 t2 n by (simp add: d update_nombre_evento_def)
qed

lemma editar_w_edicion:
  "editar_nombre_evento L_ej w_edicion db_ej =
     (Inr (),
      \<lparr>pendientes = [], hoy = ymd2ord 2026 11 4,
       salida = [ProporcioneRango, EntradaInvalida, EventoVacio, NombreEventoActualizado]\<rparr>,
      update_nombre_evento db_ej ''Gala'' 2)"
  by (simp add: editar_nombre_evento_def w_edicion_def mundo_defs texto_defs L_ej_def
      parsear_fecha_def pedir_desde.simps pedir_hasta.simps pedir_clave.simps
      pedir_no_vacio.simps reservaciones_en_rango_def select_rango_def strftime_ej db_ej_def)

lemma pasos_w_edicion:
  "pedir_desde L_ej (py_print ProporcioneRango w_edicion) =
     (Inr (ymd2ord 2026 11 6),
      \<lparr>pendientes = map (Pair (ymd2ord 2026 11 4)) ['' 11-06-2026 '', ''x'', ''2'', ''  '', ''Gala''],
       hoy = ymd2ord 2026 11 4, salida = [ProporcioneRango]\<rparr>)"
  "pedir_hasta L_ej (ymd2ord 2026 11 6)
     \<lparr>pendientes = map (Pair (ymd2ord 2026 11 4)) ['' 11-06-2026 '', ''x'', ''2'', ''  '', ''Gala''],
      hoy = ymd2ord 2026 11 4, salida = [ProporcioneRango]\<rparr> =
     (Inr (ymd2ord 2026 11 6), w_edicion_clave)"
  "pedir_clave L_ej (reservaciones_en_rango db_ej (ymd2ord 2026 11 6) (ymd2ord 2026 11 6))
     w_edicion_clave = (Inr 2, w_edicion_nombre)"
  "pedir_no_vacio EventoVacio w_edicion_nombre =
     (Inr ''Gala'',
      \<lparr>pendientes = [], hoy = ymd2ord 2026 11 4,
       salida = [ProporcioneRango, EntradaInvalida, EventoVacio]\<rparr>)"
  by (simp_all add: w_edicion_def w_edicion_clave_def w_edicion_nombre_def mundo_defs texto_defs
      L_ej_def parsear_fecha_def pedir_desde.simps pedir_hasta.simps pedir_clave.simps
      pedir_no_vacio.simps reservaciones_en_rango_def select_rango_def strftime_ej db_ej_def)

theorem editar_nombre_evento_solo_el_nombre_witness:
  "fst (editar_nombre_evento L_ej w_edicion db_ej) = Inr () \<and>
   pedir_clave L_ej (reservaciones_en_rango db_ej (ymd2ord 2026 11 6) (ymd2ord 2026 11 6))
     w_edicion_clave = (Inr 2, w_edicion_nombre) \<and>
   fst (pedir_no_vacio EventoVacio w_edicion_nombre) = Inr ''Gala'' \<and>
   map r_id (reservaciones db_ej) = [1, 2, 3, 4, 5, 6, 7] \<and>
   r_nombre_evento (reservaciones db_ej ! 1) = ''Seminar'' \<and>
   r_nombre_evento (reservaciones (snd (snd (editar_nombre_evento L_ej w_edicion db_ej))) ! 1) =
     ''Gala'' \<and>
   r_folio (reservaciones (snd (snd (editar_nombre_evento L_ej w_edicion db_ej))) ! 1) =
     r_folio (reservaciones db_ej ! 1) \<and>
   r_cliente_id (reservaciones (snd (snd (editar_nombre_evento L_ej w_edicion db_ej))) ! 1) =
     r_cliente_id (reservaciones db_ej ! 1) \<and>
   r_sala_id (reservaciones (snd (snd (editar_nombre_evento L_ej w_edicion db_ej))) ! 1) =
     r_sala_id (reservaciones db_ej ! 1) \<and>
   r_fecha (reservaciones (snd (snd (editar_nombre_evento L_ej w_edicion db_ej))) ! 1) =
     r_fecha (reservaciones db_ej ! 1) \<and>
   r_turno (reservaciones (snd (snd (editar_nombre_evento L_ej w_edicion db_ej))) ! 1) =
     r_turno (reservaciones db_ej ! 1) \<and>
   reservaciones (snd (snd (editar_nombre_evento L_ej w_edicion db_ej))) ! 0 =
     reservaciones db_ej ! 0 \<and>
   reservaciones (snd (snd (editar_nombre_evento L_ej w_edicion db_ej))) ! 6 =
     reservaciones db_ej ! 6 \<and>
   length (reservaciones (snd (snd (editar_nombre_evento L_ej w_edicion db_ej)))) = 7 \<and>
   clientes (snd (snd (editar_nombre_evento L_ej w_edicion db_ej))) = clientes db_ej \<and>
   salas (snd (snd (editar_nombre_evento L_ej w_edicion db_ej))) = salas db_ej \<and>
   map r_nombre_evento (reservaciones (snd (snd (editar_nombre_evento L_ej w_edicion db_ej)))) =
     [''Workshop'', ''Gala'', ''Concert'', ''Course'', ''Dinner'', ''Review'', ''Reunion'']"
proof -
  let ?db = "snd (snd (editar_nombre_evento L_ej w_edicion db_ej))"
  have e: "editar_nombre_evento L_ej w_edicion db_ej =
             (Inr (), fst (snd (editar_nombre_evento L_ej w_edicion db_ej)), ?db)"
    by (simp add: editar_w_edicion)
  from editar_nombre_evento_solo_el_nombre [OF e]
  obtain desde w1 hasta w2 clave w3 nuevo w4 where
    p1: "pedir_desde L_ej (py_print ProporcioneRango w_edicion) = (Inr desde, w1)" and
    p2: "pedir_hasta L_ej desde w1 = (Inr hasta, w2)" and
    p3: "pedir_clave L_ej (reservaciones_en_rango db_ej desde hasta) w2 = (Inr clave, w3)" and
    p4: "pedir_no_vacio EventoVacio w3 = (Inr nuevo, w4)" and
    c: "clientes ?db = clientes db_ej" "salas ?db = salas db_ej"
       "length (reservaciones ?db) = length (reservaciones db_ej)" and
    f: "\<forall>i < length (reservaciones db_ej).
          r_id (reservaciones ?db ! i) = r_id (reservaciones db_ej ! i) \<and>
          r_folio (reservaciones ?db ! i) = r_folio (reservaciones db_ej ! i) \<and>
          r_cliente_id (reservaciones ?db ! i) = r_cliente_id (reservaciones db_ej ! i) \<and>
          r_sala_id (reservaciones ?db ! i) = r_sala_id (reservaciones db_ej ! i) \<and>
          r_fecha (reservaciones ?db ! i) = r_fecha (reservaciones db_ej ! i) \<and>
          r_turno (reservaciones ?db ! i) = r_turno (reservaciones db_ej ! i) \<and>
          (r_id (reservaciones db_ej ! i) = clave \<longrightarrow>
             r_nombre_evento (reservaciones ?db ! i) = nuevo) \<and>
          (r_id (reservaciones db_ej ! i) \<noteq> clave \<longrightarrow>
             reservaciones ?db ! i = reservaciones db_ej ! i)"
    by blast
  from p1 pasos_w_edicion(1) have d1: "desde = ymd2ord 2026 11 6"
    and w1: "w1 = \<lparr>pendientes = map (Pair (ymd2ord 2026 11 4))
                                  ['' 11-06-2026 '', ''x'', ''2'', ''  '', ''Gala''],
                   hoy = ymd2ord 2026 11 4, salida = [ProporcioneRango]\<rparr>"
    by simp_all
  from p2 [unfolded d1 w1] pasos_w_edicion(2) have d2: "hasta = ymd2ord 2026 11 6"
    and w2: "w2 = w_edicion_clave"
    by simp_all
  from p3 [unfolded d1 d2 w2] pasos_w_edicion(3) have k: "clave = 2" and w3: "w3 = w_edicion_nombre"
    by simp_all
  from p4 [unfolded w3] pasos_w_edicion(4) have n: "nuevo = ''Gala''"
    by simp
  have l: "length (reservaciones db_ej) = 7" "map r_id (reservaciones db_ej) = [1, 2, 3, 4, 5, 6, 7]"
    "r_id (reservaciones db_ej ! 0) = 1" "r_id (reservaciones db_ej ! 1) = 2"
    "r_id (reservaciones db_ej ! 6) = 7" "r_nombre_evento (reservaciones db_ej ! 1) = ''Seminar''"
    by (simp_all add: db_ej_def)
  from f [unfolded k n l, rule_format, of 0] l
  have r0: "reservaciones ?db ! 0 = reservaciones db_ej ! 0" by simp
  from f [unfolded k n l, rule_format, of 6] l
  have r6: "reservaciones ?db ! 6 = reservaciones db_ej ! 6" by simp
  from f [unfolded k n l, rule_format, of 1] l
  have r1: "r_nombre_evento (reservaciones ?db ! 1) = ''Gala''"
    "r_folio (reservaciones ?db ! 1) = r_folio (reservaciones db_ej ! 1)"
    "r_cliente_id (reservaciones ?db ! 1) = r_cliente_id (reservaciones db_ej ! 1)"
    "r_sala_id (reservaciones ?db ! 1) = r_sala_id (reservaciones db_ej ! 1)"
    "r_fecha (reservaciones ?db ! 1) = r_fecha (reservaciones db_ej ! 1)"
    "r_turno (reservaciones ?db ! 1) = r_turno (reservaciones db_ej ! 1)"
    by simp_all
  have m: "map r_nombre_evento (reservaciones ?db) =
     [''Workshop'', ''Gala'', ''Concert'', ''Course'', ''Dinner'', ''Review'', ''Reunion'']"
    unfolding editar_w_edicion by (simp add: update_nombre_evento_def db_ej_def)
  have a: "fst (editar_nombre_evento L_ej w_edicion db_ej) = Inr ()"
    by (simp add: editar_w_edicion)
  have b: "fst (pedir_no_vacio EventoVacio w_edicion_nombre) = Inr ''Gala''"
    by (simp add: pasos_w_edicion(4))
  from a pasos_w_edicion(3) b l(2) l(6) r1 r0 r6 c(3) [unfolded l(1)] c(1) c(2) m
  show ?thesis by blast
qed

section \<open>Storing a reservation\<close>

lemma guardar_conflicto:
  assumes "list_ex (\<lambda>r. r_sala_id r = sal \<and> r_fecha r = fec \<and> r_turno r = tur) (reservaciones db)"
  shows "guardar_reservacion db cli sal fec tur ev w =
           (Inl Conflict, py_print ErrorSalaYaReservada w, db)"
  using assms by (simp add: guardar_reservacion_def insert_reservacion_def)

lemma cuenta_uno:
  assumes "distinct (map f xs)" "x \<in> set xs"
  shows "length (filter (\<lambda>r. f r = f x) xs) = 1"
  using assms
proof (induction xs)
  case Nil
  then show ?case by simp
next
  case (Cons a xs)
  show ?case
  proof (cases "a = x")
    case True
    have "f x \<notin> f ` set xs"
      using Cons.prems True by simp
    then have "filter (\<lambda>r. f r = f x) xs = []"
      by (force simp: filter_empty_conv image_iff)
    then show ?thesis using True by simp
  next
    case False
    then have "x \<in> set xs" using Cons.prems by simp
    moreover have "f a \<noteq> f x" using Cons.prems \<open>x \<in> set xs\<close> by auto
    ultimately show ?thesis using Cons by simp
  qed
qed

text \<open>
  C1. In every store that respects the constraints of the schema and holds a reservation
  for a (room, date, shift), storing another reservation for the same (room, date, shift)
  fails with \<open>Conflict\<close> whatever the client and the event name are, reports the error,
  and leaves the store as it was, so that it still holds exactly one reservation for that
  (room, date, shift).
\<close>

theorem segunda_reservacion_conflicto:
  assumes "restricciones db"
    and "list_ex (\<lambda>r. r_sala_id r = sal \<and> r_fecha r = fec \<and> r_turno r = tur) (reservaciones db)"
  shows "guardar_reservacion db cli sal fec tur ev w =
           (Inl Conflict, py_print ErrorSalaYaReservada w, db) \<and>
         count_reservaciones db sal fec tur = 1"
proof -
  from assms(2) obtain x where x: "x \<in> set (reservaciones db)"
    "r_sala_id x = sal" "r_fecha x = fec" "r_turno x = tur"
    by (auto simp: list_ex_iff)
  have "distinct (map (\<lambda>r. (r_sala_id r, r_fecha r, r_turno r)) (reservaciones db))"
    using assms(1) by (simp add: restricciones_def)
  from cuenta_uno [OF this x(1)] have "count_reservaciones db sal fec tur = 1"
    using x by (simp add: count_reservaciones_def)
  with guardar_conflicto [OF assms(2)] show ?thesis by simp
qed

lemma restricciones_db_ej: "restricciones db_ej"
  by (simp add: restricciones_def db_ej_def)

theorem segunda_reservacion_conflicto_witness:
  "restricciones db_ej \<and>
   list_ex (\<lambda>r. r_sala_id r = 2 \<and> r_fecha r = ''11-06-2026'' \<and> r_turno r = ''Nocturno'')
     (reservaciones db_ej) \<and>
   guardar_reservacion db_ej 1 2 ''11-06-2026'' ''Nocturno'' ''Party'' (teclado 739924 []) =
     (Inl Conflict, py_print ErrorSalaYaReservada (teclado 739924 []), db_ej) \<and>
   count_reservaciones db_ej 2 ''11-06-2026'' ''Nocturno'' = 1"
proof -
  have h: "list_ex (\<lambda>r. r_sala_id r = 2 \<and> r_fecha r = ''11-06-2026'' \<and> r_turno r = ''Nocturno'')
             (reservaciones db_ej)"
    by (simp add: db_ej_def)
  from segunda_reservacion_conflicto [OF restricciones_db_ej h] restricciones_db_ej h
  show ?thesis by blast
qed

section \<open>Folios\<close>

lemma digito_cases: "k < 10 \<Longrightarrow> k \<in> {0, 1, 2, 3, 4, 5, 6, 7, 8, 9::nat}"
  by auto

lemma digito_valor: "k < 10 \<Longrightarrow> (of_char (''0123456789'' ! k) :: nat) = 48 + k"
  by (drule digito_cases) auto

lemma digito_no_menos: "k < 10 \<Longrightarrow> ''0123456789'' ! k \<noteq> CHR ''-''"
  by (drule digito_cases) auto

lemma valor_snoc: "valor (s @ [c]) = 10 * valor s + (of_char c - 48)"
  by (simp add: valor_def)

lemma valor_digits: "valor (digits n) = n"
proof (induction n rule: digits.induct)
  case (1 n)
  show ?case
  proof (cases "n < 10")
    case True
    then show ?thesis by (subst digits.simps) (simp add: valor_def digito_valor)
  next
    case False
    then have "valor (digits n) = 10 * valor (digits (n div 10)) + (of_char (''0123456789'' ! (n mod 10)) - 48)"
      by (subst digits.simps) (simp add: valor_snoc)
    also have "\<dots> = 10 * (n div 10) + n mod 10"
      using 1 False by (simp add: digito_valor)
    finally show ?thesis by simp
  qed
qed

lemma valor_ceros: "valor (replicate k CHR ''0'' @ s) = valor s"
  by (induction k) (simp_all add: valor_def)

lemma valor_zfill: "valor (zfill w s) = valor s"
  by (simp add: zfill_def valor_ceros)

lemma hd_digits: "digits n \<noteq> [] \<and> hd (digits n) \<noteq> CHR ''-''"
proof (induction n rule: digits.induct)
  case (1 n)
  show ?case
  proof (cases "n < 10")
    case True
    then show ?thesis by (subst (1 2) digits.simps) (simp add: digito_no_menos)
  next
    case False
    then show ?thesis using 1 by (subst (1 2) digits.simps) simp
  qed
qed

lemma hd_zfill: "zfill w (digits n) \<noteq> [] \<and> hd (zfill w (digits n)) \<noteq> CHR ''-''"
proof (cases "w - length (digits n)")
  case 0
  then show ?thesis using hd_digits [of n] by (simp add: zfill_def)
next
  case (Suc k)
  then show ?thesis by (simp add: zfill_def)
qed

lemma format_d_inj: "format_d w a = format_d w b \<Longrightarrow> a = b"
proof -
  assume e: "format_d w a = format_d w b"
  consider "a < 0" "b < 0" | "a < 0" "\<not> b < 0" | "\<not> a < 0" "b < 0" | "\<not> a < 0" "\<not> b < 0"
    by blast
  then show ?thesis
  proof cases
    case 1
    with e have "valor (zfill (w - 1) (digits (nat (- a)))) = valor (zfill (w - 1) (digits (nat (- b))))"
      by (simp add: format_d_def)
    then show ?thesis using 1 by (simp add: valor_zfill valor_digits)
  next
    case 2
    with e have "CHR ''-'' # zfill (w - 1) (digits (nat (- a))) = zfill w (digits (nat b))"
      by (simp add: format_d_def)
    then have "hd (zfill w (digits (nat b))) = CHR ''-''"
      by (metis list.sel(1))
    then show ?thesis using hd_zfill by blast
  next
    case 3
    with e have "zfill w (digits (nat a)) = CHR ''-'' # zfill (w - 1) (digits (nat (- b)))"
      by (simp add: format_d_def)
    then have "hd (zfill w (digits (nat a))) = CHR ''-''"
      by (metis list.sel(1))
    then show ?thesis using hd_zfill by blast
  next
    case 4
    with e have "valor (zfill w (digits (nat a))) = valor (zfill w (digits (nat b)))"
      by (simp add: format_d_def)
    then show ?thesis using 4 by (simp add: valor_zfill valor_digits)
  qed
qed

lemma generar_folio_inj: "generar_folio a = generar_folio b \<longleftrightarrow> a = b"
  by (auto simp: generar_folio_def dest: format_d_inj)

lemma generar_folio_no_vacio: "generar_folio a \<noteq> []"
  by (simp add: generar_folio_def)

section \<open>Dates and their texts\<close>
















section \<open>The insertion block in closed form\<close>

lemma foldr_max_ge: "x \<in> set ids \<Longrightarrow> x \<le> foldr max ids (0::int)"
  by (induction ids) auto

lemma autoincrement_nuevo: "x \<in> set ids \<Longrightarrow> x < autoincrement seq ids"
  using foldr_max_ge [of x ids] by (simp add: autoincrement_def)

lemma autoincrement_fresco: "autoincrement seq ids \<notin> set ids"
  using autoincrement_nuevo [of "autoincrement seq ids" ids seq] by auto

lemma map_folio_fresco:
  assumes "k \<notin> set (map r_id rows)"
  shows "map (\<lambda>r. if r_id r = k then r\<lparr>r_folio := f\<rparr> else r) rows = rows"
  using assms by (induction rows) auto

lemma guardar_reservacion_forma:
  assumes "folios_en_regla db"
  shows "guardar_reservacion db cli sal fec tur ev w =
     (if list_ex (\<lambda>r. r_folio r = []) (reservaciones db)
         \<or> list_ex (\<lambda>r. r_sala_id r = sal \<and> r_fecha r = fec \<and> r_turno r = tur) (reservaciones db)
      then (Inl Conflict, py_print ErrorSalaYaReservada w, db)
      else (Inr (r_folio (fila_nueva db cli sal fec tur ev)),
            py_print (ReservacionRegistrada (r_folio (fila_nueva db cli sal fec tur ev))) w,
            db\<lparr>reservaciones := reservaciones db @ [fila_nueva db cli sal fec tur ev],
               seq_reservaciones := r_id (fila_nueva db cli sal fec tur ev)\<rparr>))"
proof (cases "list_ex (\<lambda>r. r_folio r = []) (reservaciones db)
         \<or> list_ex (\<lambda>r. r_sala_id r = sal \<and> r_fecha r = fec \<and> r_turno r = tur) (reservaciones db)")
  case True
  then show ?thesis by (simp add: guardar_reservacion_def insert_reservacion_def)
next
  case False
  define k where "k = autoincrement (seq_reservaciones db) (map r_id (reservaciones db))"
  have fresco: "k \<notin> set (map r_id (reservaciones db))"
    unfolding k_def by (rule autoincrement_fresco)
  have gen: "\<forall>r \<in> set (reservaciones db). r_folio r = generar_folio (r_id r)"
    using assms False by (auto simp: folios_en_regla_def list_all_iff list_ex_iff)
  have sin_choque: "\<not> list_ex (\<lambda>r. r_id r \<noteq> k \<and> r_folio r = generar_folio k)
          (reservaciones db @ [\<lparr>r_id = k, r_folio = [], r_cliente_id = cli, r_sala_id = sal,
                               r_fecha = fec, r_turno = tur, r_nombre_evento = ev\<rparr>])"
    using gen by (auto simp: list_ex_iff generar_folio_inj)
  show ?thesis
    using False sin_choque map_folio_fresco [OF fresco]
    by (simp add: guardar_reservacion_def insert_reservacion_def update_folio_def Let_def
        fila_nueva_def k_def [symmetric])
qed

text \<open>
  C2. In a store where every folio is the one generated from its row's key (or is still
  the empty placeholder of an insertion in course), whenever the insertion block of
  \<open>registrar_reservacion\<close> fails, the store afterwards is the store before: the attempt
  leaves no row, with or without folio, the failure is \<open>Conflict\<close>, and the query by
  date, the query by range and the availability of every date give what they gave before.
\<close>

theorem guardar_reservacion_sin_rastro:
  assumes "folios_en_regla db"
    and "guardar_reservacion db cli sal fec tur ev w = (Inl e, w', db')"
  shows "db' = db \<and> e = Conflict \<and>
         reservaciones db' = reservaciones db \<and>
         reservaciones_de_fecha db' d = reservaciones_de_fecha db d \<and>
         reservaciones_en_rango db' desde hasta = reservaciones_en_rango db desde hasta \<and>
         salas_disponibles_para_fecha db' d = salas_disponibles_para_fecha db d"
proof -
  have "db' = db \<and> e = Conflict"
    using assms(2) unfolding guardar_reservacion_forma [OF assms(1)]
    by (auto split: if_splits)
  then show ?thesis by simp
qed

lemma folios_generados_db_ej: "folios_generados db_ej"
  by (simp add: folios_generados_def db_ej_def generar_folio_def format_d_def zfill_def
      digits.simps replicate_numeral)

theorem guardar_reservacion_sin_rastro_witness:
  "folios_en_regla db_ej \<and>
   guardar_reservacion db_ej 1 1 ''11-06-2026'' ''Matutino'' ''Otro'' (teclado 739924 []) =
     (Inl Conflict, py_print ErrorSalaYaReservada (teclado 739924 []), db_ej) \<and>
   reservaciones_de_fecha db_ej 739926 = reservaciones_de_fecha db_ej 739926 \<and>
   length (reservaciones db_ej) = 7"
proof -
  have r: "folios_en_regla db_ej"
    using folios_generados_db_ej
    by (simp add: folios_generados_def folios_en_regla_def list_all_iff)
  have g: "guardar_reservacion db_ej 1 1 ''11-06-2026'' ''Matutino'' ''Otro'' (teclado 739924 []) =
             (Inl Conflict, py_print ErrorSalaYaReservada (teclado 739924 []), db_ej)"
    by (simp add: guardar_reservacion_def insert_reservacion_def db_ej_def)
  have n: "length (reservaciones db_ej) = 7"
    by (simp add: db_ej_def)
  from guardar_reservacion_sin_rastro [OF r g, of 739926 739926 739926] r g n
  show ?thesis by simp
qed

lemma folios_generados_en_regla: "folios_generados db \<Longrightarrow> folios_en_regla db"
  by (auto simp: folios_generados_def folios_en_regla_def list_all_iff)

lemma folios_generados_sin_vacio:
  "folios_generados db \<Longrightarrow> \<not> list_ex (\<lambda>r. r_folio r = []) (reservaciones db)"
  by (auto simp: folios_generados_def list_all_iff list_ex_iff generar_folio_no_vacio)

lemma distinct_folios:
  assumes "folios_generados db" "distinct (map r_id (reservaciones db))"
  shows "distinct (map r_folio (reservaciones db))"
proof -
  have "map r_folio (reservaciones db) = map generar_folio (map r_id (reservaciones db))"
    using assms(1) by (auto simp: folios_generados_def list_all_iff)
  moreover have "inj generar_folio"
    by (rule injI) (simp add: generar_folio_inj)
  ultimately show ?thesis
    using assms(2) by (simp add: distinct_map inj_on_subset [OF _ subset_UNIV] del: map_map)
qed

lemma invariante_guardar:
  assumes "invariante db"
    and "guardar_reservacion db cli sal fec tur ev w = (r, w', db')"
  shows "invariante db'"
proof (cases "list_ex (\<lambda>r. r_sala_id r = sal \<and> r_fecha r = fec \<and> r_turno r = tur) (reservaciones db)")
  case True
  then have "db' = db"
    using assms(2) by (simp add: guardar_conflicto)
  then show ?thesis using assms(1) by simp
next
  case False
  have g: "folios_generados db" and c: "restricciones db"
    using assms(1) by (simp_all add: invariante_def)
  let ?n = "fila_nueva db cli sal fec tur ev"
  have db': "db' = db\<lparr>reservaciones := reservaciones db @ [?n], seq_reservaciones := r_id ?n\<rparr>"
    using assms(2) False folios_generados_sin_vacio [OF g]
    unfolding guardar_reservacion_forma [OF folios_generados_en_regla [OF g]]
    by auto
  have id_n: "r_id ?n \<notin> set (map r_id (reservaciones db))"
    by (simp add: fila_nueva_def Let_def autoincrement_fresco del: set_map)
  have tr_n: "(r_sala_id ?n, r_fecha ?n, r_turno ?n) \<notin>
                set (map (\<lambda>r. (r_sala_id r, r_fecha r, r_turno r)) (reservaciones db))"
    using False by (auto simp: fila_nueva_def Let_def list_ex_iff)
  have g': "folios_generados db'"
    using g by (simp add: db' folios_generados_def fila_nueva_def Let_def)
  have ids: "distinct (map r_id (reservaciones db'))"
    using c id_n by (simp add: db' restricciones_def)
  have "restricciones db'"
    using c tr_n ids distinct_folios [OF g' ids]
    by (simp add: restricciones_def) (simp add: db')
  with g' show ?thesis by (simp add: invariante_def)
qed

section \<open>What every reachable store satisfies\<close>

lemma registrar_reservacion_db:
  assumes "registrar_reservacion L w db = (r, w', db')"
  shows "db' = db \<or>
         (\<exists>cli sal d tur ev w5.
            guardar_reservacion db cli sal (DATE_FORMAT_strftime d) tur ev w5 = (r, w', db'))"
  using assms
  by (auto simp: registrar_reservacion_def Let_def
      split: if_splits prod.splits sum.splits option.splits)

lemma invariante_registrar_reservacion:
  "invariante db \<Longrightarrow> registrar_reservacion L w db = (r, w', db') \<Longrightarrow> invariante db'"
  using registrar_reservacion_db invariante_guardar by blast

lemma invariante_registrar_cliente:
  assumes "invariante db" "registrar_cliente w db = (r, w', db')"
  shows "invariante db'"
proof -
  have "db' = db \<or> (\<exists>n a k. insert_cliente db n a = (k, db'))"
    using assms(2)
    by (auto simp: registrar_cliente_def split: prod.splits sum.splits)
  moreover have "invariante d2" if "insert_cliente db n a = (k, d2)" for n a k d2
    using assms(1) that autoincrement_fresco [of "seq_clientes db" "map c_id (clientes db)"]
    by (auto simp: invariante_def restricciones_def folios_generados_def insert_cliente_def Let_def
        simp del: set_map)
  ultimately show ?thesis using assms(1) by auto
qed

lemma invariante_registrar_sala:
  assumes "invariante db" "registrar_sala L w db = (r, w', db')"
  shows "invariante db'"
proof -
  have "db' = db \<or> (\<exists>n c k. insert_sala db n c = Some (k, db'))"
    using assms(2)
    by (auto simp: registrar_sala_def split: prod.splits sum.splits option.splits)
  moreover have "invariante d2" if "insert_sala db n c = Some (k, d2)" for n c k d2
    using assms(1) that autoincrement_fresco [of "seq_salas db" "map s_id (salas db)"]
    by (auto simp: invariante_def restricciones_def folios_generados_def insert_sala_def Let_def
        split: if_splits simp del: set_map)
  ultimately show ?thesis using assms(1) by auto
qed

lemma invariante_update_nombre_evento:
  assumes "invariante db"
  shows "invariante (update_nombre_evento db nuevo k)"
proof -
  let ?g = "\<lambda>r. if r_id r = k then r\<lparr>r_nombre_evento := nuevo\<rparr> else r"
  have "map r_id (map ?g xs) = map r_id xs"
    and "map r_folio (map ?g xs) = map r_folio xs"
    and "map (\<lambda>r. (r_sala_id r, r_fecha r, r_turno r)) (map ?g xs)
           = map (\<lambda>r. (r_sala_id r, r_fecha r, r_turno r)) xs" for xs :: "reservacion list"
    by (induction xs) auto
  then show ?thesis
    using assms
    by (auto simp: invariante_def restricciones_def folios_generados_def update_nombre_evento_def
        list_all_iff simp del: map_map)
qed

lemma invariante_editar_nombre_evento:
  assumes "invariante db" "editar_nombre_evento L w db = (r, w', db')"
  shows "invariante db'"
proof -
  have "db' = db \<or> (\<exists>n k. db' = update_nombre_evento db n k)"
    using assms(2)
    by (auto simp: editar_nombre_evento_def Let_def split: prod.splits sum.splits if_splits)
  then show ?thesis using assms(1) invariante_update_nombre_evento by auto
qed

lemma invariante_crear_tablas: "invariante crear_tablas"
  by (simp add: invariante_def restricciones_def folios_generados_def crear_tablas_def)

lemma alcanzable_invariante: "alcanzable db \<Longrightarrow> invariante db"
proof (induction rule: alcanzable.induct)
  case inicio
  show ?case by (rule invariante_crear_tablas)
next
  case (paso_cliente db w r w' db')
  then show ?case using invariante_registrar_cliente by blast
next
  case (paso_sala db L w r w' db')
  then show ?case using invariante_registrar_sala by blast
next
  case (paso_reservacion db L w r w' db')
  then show ?case using invariante_registrar_reservacion by blast
next
  case (paso_edicion db L w r w' db')
  then show ?case using invariante_editar_nombre_evento by blast
qed

text \<open>
  C9. In every store that the program can produce, each reservation's folio is the
  character \<open>R\<close> followed by the reservation's key written in decimal and padded with
  zeros to six digits, and any two distinct reservations have distinct folios.
\<close>

theorem folios_distintos_y_derivados:
  assumes "alcanzable db"
  shows "list_all (\<lambda>r. r_folio r = CHR ''R'' # format_d 6 (r_id r)) (reservaciones db) \<and>
         distinct (map r_folio (reservaciones db)) \<and>
         (\<forall>r \<in> set (reservaciones db). \<forall>r' \<in> set (reservaciones db).
            r \<noteq> r' \<longrightarrow> r_folio r \<noteq> r_folio r')"
proof -
  have i: "invariante db" using assms by (rule alcanzable_invariante)
  then have g: "list_all (\<lambda>r. r_folio r = CHR ''R'' # format_d 6 (r_id r)) (reservaciones db)"
    by (simp add: invariante_def folios_generados_def generar_folio_def)
  have d: "distinct (map r_folio (reservaciones db))"
    using i by (simp add: invariante_def restricciones_def)
  then have "inj_on r_folio (set (reservaciones db))"
    by (simp add: distinct_map)
  then have "\<forall>r \<in> set (reservaciones db). \<forall>r' \<in> set (reservaciones db).
            r \<noteq> r' \<longrightarrow> r_folio r \<noteq> r_folio r'"
    by (auto dest: inj_onD)
  with g d show ?thesis by blast
qed

lemma db_paso1: "db_paso1 = \<lparr>clientes = [\<lparr>c_id = 1, c_nombre = ''Jane'', c_apellidos = ''Doe''\<rparr>],
    salas = [], reservaciones = [], seq_clientes = 1, seq_salas = 0, seq_reservaciones = 0\<rparr>"
  by (simp add: db_paso1_def crear_tablas_def mundo_defs texto_defs bucle_simps sql_defs programa_defs)

lemma db_paso2: "db_paso2 = \<lparr>clientes = [\<lparr>c_id = 1, c_nombre = ''Jane'', c_apellidos = ''Doe''\<rparr>],
    salas = [\<lparr>s_id = 1, s_nombre = ''Hall A'', s_cupo = 10\<rparr>], reservaciones = [],
    seq_clientes = 1, seq_salas = 1, seq_reservaciones = 0\<rparr>"
  by (simp add: db_paso2_def db_paso1 L_ej_def mundo_defs texto_defs bucle_simps sql_defs programa_defs)

lemma db_paso3: "db_paso3 = \<lparr>clientes = [\<lparr>c_id = 1, c_nombre = ''Jane'', c_apellidos = ''Doe''\<rparr>],
    salas = [\<lparr>s_id = 1, s_nombre = ''Hall A'', s_cupo = 10\<rparr>],
    reservaciones = [\<lparr>r_id = 1, r_folio = ''R000001'', r_cliente_id = 1, r_sala_id = 1,
                r_fecha = ''11-06-2026'', r_turno = ''Matutino'', r_nombre_evento = ''Workshop''\<rparr>],
    seq_clientes = 1, seq_salas = 1, seq_reservaciones = 1\<rparr>"
  by (simp add: db_paso3_def db_paso2 L_ej_def mundo_defs texto_defs bucle_simps sql_defs programa_defs fecha_defs replicate_numeral)

lemma db_paso4: "db_paso4 = \<lparr>clientes = [\<lparr>c_id = 1, c_nombre = ''Jane'', c_apellidos = ''Doe''\<rparr>],
    salas = [\<lparr>s_id = 1, s_nombre = ''Hall A'', s_cupo = 10\<rparr>],
    reservaciones = [\<lparr>r_id = 1, r_folio = ''R000001'', r_cliente_id = 1, r_sala_id = 1,
                r_fecha = ''11-06-2026'', r_turno = ''Matutino'', r_nombre_evento = ''Workshop''\<rparr>,
                 \<lparr>r_id = 2, r_folio = ''R000002'', r_cliente_id = 1, r_sala_id = 1,
                r_fecha = ''11-06-2026'', r_turno = ''Nocturno'', r_nombre_evento = ''Concert''\<rparr>],
    seq_clientes = 1, seq_salas = 1, seq_reservaciones = 2\<rparr>"
  by (simp add: db_paso4_def db_paso3 L_ej_def mundo_defs texto_defs bucle_simps sql_defs programa_defs fecha_defs replicate_numeral)

lemma alcanzable_cliente: "alcanzable db \<Longrightarrow> alcanzable (snd (snd (registrar_cliente w db)))"
  by (cases "registrar_cliente w db") (auto intro: paso_cliente)

lemma alcanzable_sala: "alcanzable db \<Longrightarrow> alcanzable (snd (snd (registrar_sala L w db)))"
  by (cases "registrar_sala L w db") (auto intro: paso_sala)

lemma alcanzable_reservacion:
  "alcanzable db \<Longrightarrow> alcanzable (snd (snd (registrar_reservacion L w db)))"
  by (cases "registrar_reservacion L w db") (auto intro: paso_reservacion)

lemma alcanzable_db_paso4: "alcanzable db_paso4"
  unfolding db_paso4_def db_paso3_def db_paso2_def db_paso1_def
  by (intro alcanzable_reservacion alcanzable_sala alcanzable_cliente inicio)

theorem folios_distintos_y_derivados_witness:
  "alcanzable db_paso4 \<and>
   map r_id (reservaciones db_paso4) = [1, 2] \<and>
   map r_folio (reservaciones db_paso4) = [''R000001'', ''R000002''] \<and>
   list_all (\<lambda>r. r_folio r = CHR ''R'' # format_d 6 (r_id r)) (reservaciones db_paso4) \<and>
   distinct (map r_folio (reservaciones db_paso4))"
proof -
  note t = folios_distintos_y_derivados [OF alcanzable_db_paso4]
  have a: "map r_id (reservaciones db_paso4) = [1, 2]"
    by (simp add: db_paso4)
  have b: "map r_folio (reservaciones db_paso4) = [''R000001'', ''R000002'']"
    by (simp add: db_paso4)
  from t a b alcanzable_db_paso4 show ?thesis by blast
qed

section \<open>The loop that asks for the date\<close>


















section \<open>Lead time and Sunday\<close>






























section \<open>The query by date\<close>

text \<open>
  C4, as stated, fails: on 2026-11-06 the example store has reservations for the three
  shifts, and the query lists the night shift before the afternoon shift, which is not
  their order in \<open>TURNOS\<close>.
\<close>

theorem consulta_no_sigue_TURNOS:
  "map (\<lambda>(r, s, c). (r_turno r, s_id s)) (reservaciones_de_fecha db_ej (ymd2ord 2026 11 6)) =
     [(''Matutino'', 1), (''Nocturno'', 1), (''Nocturno'', 2), (''Vespertino'', 1),
      (''Vespertino'', 2)] \<and>
   map (\<lambda>(r, s, c). posicion_turno (r_turno r))
       (reservaciones_de_fecha db_ej (ymd2ord 2026 11 6)) = [0, 2, 2, 1, 1] \<and>
   \<not> sorted (map (\<lambda>(r, s, c). (posicion_turno (r_turno r), s_id s))
                 (reservaciones_de_fecha db_ej (ymd2ord 2026 11 6)))"
  by (simp add: reservaciones_de_fecha_def select_por_fecha_def strftime_ej db_ej_def
      posicion_turno_def TURNOS_def)

text \<open>
  C4, as amended. For every date, the query by date returns the reservations stored for
  that date, each joined with its room and its client, ordered by the name of the shift
  as a text and then by the key of the room; as texts, Matutino comes before Nocturno and
  Nocturno before Vespertino. The rows that \<open>consultar_reservaciones\<close> shows are the chosen
  columns of such a result.
\<close>

theorem consulta_por_fecha_ordenada:
  "sorted (map (\<lambda>(r, s, c). (r_turno r, s_id s)) (reservaciones_de_fecha db d)) \<and>
   set (reservaciones_de_fecha db d) =
     {(r, s, c). r \<in> set (reservaciones db) \<and> s \<in> set (salas db) \<and> c \<in> set (clientes db) \<and>
                 r_sala_id r = s_id s \<and> r_cliente_id r = c_id c \<and>
                 r_fecha r = DATE_FORMAT_strftime d} \<and>
   (''Matutino'' < ''Nocturno'' \<and> ''Nocturno'' < ''Vespertino'') \<and>
   (consultar_reservaciones L w db = (Inr rows, w') \<longrightarrow>
      (\<exists>d'. rows = map columnas_consulta (reservaciones_de_fecha db d')))"
proof (intro conjI impI)
  show "sorted (map (\<lambda>(r, s, c). (r_turno r, s_id s)) (reservaciones_de_fecha db d))"
    by (simp add: reservaciones_de_fecha_def select_por_fecha_def)
  show "set (reservaciones_de_fecha db d) =
     {(r, s, c). r \<in> set (reservaciones db) \<and> s \<in> set (salas db) \<and> c \<in> set (clientes db) \<and>
                 r_sala_id r = s_id s \<and> r_cliente_id r = c_id c \<and>
                 r_fecha r = DATE_FORMAT_strftime d}"
    by (auto simp: reservaciones_de_fecha_def select_por_fecha_def split: if_splits)
  show "''Matutino'' < ''Nocturno''" by simp
  show "''Nocturno'' < ''Vespertino''" by simp
next
  assume "consultar_reservaciones L w db = (Inr rows, w')"
  then show "\<exists>d'. rows = map columnas_consulta (reservaciones_de_fecha db d')"
    by (auto simp: consultar_reservaciones_def Let_def
        split: option.splits if_splits prod.splits)
qed

theorem consulta_por_fecha_ordenada_witness:
  "sorted (map (\<lambda>(r, s, c). (r_turno r, s_id s))
             (reservaciones_de_fecha db_ej (ymd2ord 2026 11 6))) \<and>
   map (\<lambda>(r, s, c). r_id r) (reservaciones_de_fecha db_ej (ymd2ord 2026 11 6)) =
     [1, 3, 5, 2, 4] \<and>
   fst (consultar_reservaciones L_ej (teclado (ymd2ord 2026 11 4) [''11-06-2026'']) db_ej) =
     Inr (map columnas_consulta (reservaciones_de_fecha db_ej (ymd2ord 2026 11 6)))"
proof -
  have a: "map (\<lambda>(r, s, c). r_id r) (reservaciones_de_fecha db_ej (ymd2ord 2026 11 6)) =
             [1, 3, 5, 2, 4]"
    by (simp add: reservaciones_de_fecha_def select_por_fecha_def strftime_ej db_ej_def)
  have b: "fst (consultar_reservaciones L_ej (teclado (ymd2ord 2026 11 4) [''11-06-2026''])
                  db_ej) =
             Inr (map columnas_consulta (reservaciones_de_fecha db_ej (ymd2ord 2026 11 6)))"
    by (simp add: consultar_reservaciones_def mundo_defs texto_defs L_ej_def parsear_fecha_def
        reservaciones_de_fecha_def select_por_fecha_def strftime_ej db_ej_def)
  from consulta_por_fecha_ordenada [of db_ej "ymd2ord 2026 11 6"] a b
  show ?thesis by blast
qed

section \<open>The query by range\<close>

lemma pedir_hasta_anterior:
  "py_input w = Some (s, w1) \<Longrightarrow> parsear_fecha L (strip s) = Some hasta \<Longrightarrow> hasta < desde \<Longrightarrow>
     pedir_hasta L desde w = pedir_hasta L desde (py_print FormatoInvalidoOFechaFinal w1)"
  by (simp add: pedir_hasta.simps [of L desde w])

lemma pedir_hasta_Inr:
  "pedir_hasta L desde w = (Inr hasta, w') \<Longrightarrow> desde \<le> hasta"
proof (induction L desde w rule: pedir_hasta.induct)
  case (1 L desde w)
  then show ?case
    by (subst (asm) (3) pedir_hasta.simps) (auto split: option.splits if_splits)
qed

lemma rango_de_un_dia:
  "set (reservaciones_en_rango db d d) =
     (\<lambda>r. (r_id r, r_folio r, r_nombre_evento r, r_fecha r)) `
       {r \<in> set (reservaciones db). r_fecha r = DATE_FORMAT_strftime d}"
  by (auto simp: reservaciones_en_rango_def select_rango_def)

text \<open>
  C5. The range of \<open>editar_nombre_evento\<close> is checked as a range of dates
  (\<open>hasta >= desde\<close>), but the rows are selected and ordered by comparing the texts
  \<open>mm-dd-yyyy\<close>. On the example store, the range from 2026-12-01 to 2027-01-31 returns
  nothing although a reservation is stored for 2026-12-15, and the range of the year 2027
  returns the seven reservations of the store, none of which is of 2027, with the one of
  2030 before those of 2026.
\<close>

theorem rango_compara_textos:
  "ymd2ord 2026 12 1 \<le> ymd2ord 2027 1 31 \<and>
   reservaciones_en_rango db_ej (ymd2ord 2026 12 1) (ymd2ord 2027 1 31) = [] \<and>
   list_ex (\<lambda>r. r_fecha r = DATE_FORMAT_strftime (ymd2ord 2026 12 15)) (reservaciones db_ej) \<and>
   ymd2ord 2026 12 1 \<le> ymd2ord 2026 12 15 \<and> ymd2ord 2026 12 15 \<le> ymd2ord 2027 1 31 \<and>
   ymd2ord 2027 1 1 \<le> ymd2ord 2027 12 31 \<and>
   map (\<lambda>(k, f, n, t). t) (reservaciones_en_rango db_ej (ymd2ord 2027 1 1) (ymd2ord 2027 12 31)) =
     [''06-15-2030'', ''11-06-2026'', ''11-06-2026'', ''11-06-2026'', ''11-06-2026'',
      ''11-06-2026'', ''12-15-2026''] \<and>
   DATE_FORMAT_strftime (ymd2ord 2030 6 15) = ''06-15-2030'' \<and>
   DATE_FORMAT_strftime (ymd2ord 2026 11 6) = ''11-06-2026'' \<and>
   ymd2ord 2026 11 6 < ymd2ord 2027 1 1 \<and>
   ymd2ord 2027 12 31 < ymd2ord 2030 6 15"
  by (simp add: reservaciones_en_rango_def select_rango_def strftime_ej db_ej_def)
     (simp add: fecha_defs)

end
